theory Spec2Isabelle
  imports Main "HOL-Library.AList"
begin

section \<open>JavaScript values\<close>

text \<open>
  The Numbers of the model are the safe integers, from \<open>-(2^53 - 1)\<close> to \<open>2^53 - 1\<close>:
  each of them is a Number of its own, and its string form is its plain decimal numeral.
\<close>

typedef safe_int = "{i :: int. - 9007199254740991 \<le> i \<and> i \<le> 9007199254740991}"
  by (rule exI [of _ 0]) simp

text \<open>
  Channel names, payloads and decoded frames are JavaScript values. The model covers
  the primitive values and arrays of them. Symbols, functions, Numbers that are no safe
  integers and objects with properties or methods of their own are not values of the
  model.
\<close>

datatype jsval =
    JUndefined
  | JNull
  | JBool bool
  | JNum safe_int
  | JStr string
  | JArr "jsval list"

text \<open>The Number \<open>i\<close>, for a safe integer \<open>i\<close>.\<close>

definition js_num :: "int \<Rightarrow> jsval" where
  "js_num i = JNum (Abs_safe_int i)"

text \<open>Truthiness, as tested by \<^verbatim>\<open>if (v)\<close>, \<^verbatim>\<open>v && w\<close> and \<^verbatim>\<open>v || w\<close>.\<close>

fun truthy :: "jsval \<Rightarrow> bool" where
  "truthy JUndefined = False"
| "truthy JNull = False"
| "truthy (JBool b) = b"
| "truthy (JNum n) = (Rep_safe_int n \<noteq> 0)"
| "truthy (JStr s) = (s \<noteq> [])"
| "truthy (JArr xs) = True"

text \<open>The decimal numeral of a natural number and of an integer.\<close>

fun show_nat :: "nat \<Rightarrow> string" where
  "show_nat n =
     (if n < 10 then [''0123456789'' ! n]
      else show_nat (n div 10) @ [''0123456789'' ! (n mod 10)])"

declare show_nat.simps [simp del]

definition show_int :: "int \<Rightarrow> string" where
  "show_int i = (if i < 0 then CHR ''-'' # show_nat (nat (- i)) else show_nat (nat i))"

fun join_comma :: "string list \<Rightarrow> string" where
  "join_comma [] = []"
| "join_comma [s] = s"
| "join_comma (s # t # ts) = s @ CHR '','' # join_comma (t # ts)"

text \<open>
  ToString. An array is the comma-joined string forms of its elements, where
  \<^verbatim>\<open>undefined\<close> and \<^verbatim>\<open>null\<close> elements give the empty string.
\<close>

fun to_string :: "jsval \<Rightarrow> string" where
  "to_string JUndefined = ''undefined''"
| "to_string JNull = ''null''"
| "to_string (JBool b) = (if b then ''true'' else ''false'')"
| "to_string (JNum n) = show_int (Rep_safe_int n)"
| "to_string (JStr s) = s"
| "to_string (JArr xs) =
     join_comma (map (\<lambda>x. if x = JUndefined \<or> x = JNull then [] else to_string x) xs)"

text \<open>
  \<^verbatim>\<open>name + ''\<close> (the "Stringification" of \<^verbatim>\<open>subscribe\<close> and \<^verbatim>\<open>unsubscribe\<close>)
  converts the name to a primitive and then to a string; \<^verbatim>\<open>obj[name]\<close> and
  \<^verbatim>\<open>obj.hasOwnProperty(name)\<close> convert it to a property key. On the values of the
  model both conversions are ToString.
\<close>

definition stringify :: "jsval \<Rightarrow> string" where
  "stringify name = to_string name"

definition property_key :: "jsval \<Rightarrow> string" where
  "property_key name = to_string name"

text \<open>
  \<^verbatim>\<open>v.length\<close> and \<^verbatim>\<open>v[i]\<close> for a value \<open>v\<close> that is neither \<^verbatim>\<open>undefined\<close> nor
  \<^verbatim>\<open>null\<close> (on those two the property access throws; the only caller guards it with
  \<^verbatim>\<open>raw &&\<close>). The length is \<open>Some n\<close> for the number \<open>n\<close> and \<open>None\<close> for
  \<^verbatim>\<open>undefined\<close>; \<open>truthy_length\<close> is its truthiness.
\<close>

fun js_length :: "jsval \<Rightarrow> nat option" where
  "js_length (JArr xs) = Some (length xs)"
| "js_length (JStr s) = Some (length s)"
| "js_length v = None"

fun truthy_length :: "nat option \<Rightarrow> bool" where
  "truthy_length None = False"
| "truthy_length (Some n) = (n \<noteq> 0)"

fun js_index :: "jsval \<Rightarrow> nat \<Rightarrow> jsval" where
  "js_index (JArr xs) i = (if i < length xs then xs ! i else JUndefined)"
| "js_index (JStr s) i = (if i < length s then JStr [s ! i] else JUndefined)"
| "js_index v i = JUndefined"

section \<open>Data model\<close>

type_synonym handler = nat
type_synonym socket = nat
type_synonym bytes = string
type_synonym bundler_options = "string \<rightharpoonup> jsval"

text \<open>
  Modelled from the spec: Channel.js is not among the sources. A Channel has a name,
  its effective options, an ordered pending-packet queue, its handlers and the state of
  its bundler timer (idle or armed). \<open>stamp\<close> is the identity of the object: the
  number of Channel objects the client had created before this one.
\<close>

record channel =
  stamp :: nat
  cname :: string
  coptions :: bundler_options
  packets :: "jsval list"
  handlers :: "handler list"
  armed :: bool

text \<open>
  \<^verbatim>\<open>this.channels\<close> is a plain object used as a dictionary. \<open>own\<close> lists its own
  properties in creation order; \<open>proto\<close> is \<open>Some ch\<close> once a Channel has been
  assigned under the key \<^verbatim>\<open>__proto__\<close>: that assignment runs the inherited setter,
  which replaces the prototype of the object and creates no own property.
\<close>

record chanobj =
  own :: "(string \<times> channel) list"
  proto :: "channel option"

record config =
  hostname :: string
  port :: nat
  adapter :: string
  encoder :: string
  bundler :: bundler_options
  stats :: bool
  socketTimeout :: nat

text \<open>
  The \<^verbatim>\<open>options\<close> argument of the constructor; \<open>None\<close> is an absent property
  (\<open>JUndefined\<close> for the tick). \<open>o_channels\<close> lists the keys of
  \<^verbatim>\<open>options.channels\<close> with their values, in the order in which
  \<^verbatim>\<open>for (let c in options.channels)\<close> visits them.
\<close>

record user_options =
  o_hostname :: "string option"
  o_port :: "nat option"
  o_adapter :: "string option"
  o_encoder :: "string option"
  o_bundler :: "bundler_options option"
  o_stats :: "bool option"
  o_socketTimeout :: "nat option"
  o_tick :: jsval
  o_channels :: "(string \<times> handler option) list"

text \<open>
  What the client does to the outside world, in order: signals of the EventEmitter,
  calls of the adapter, statistics lines and handler invocations. The \<^verbatim>\<open>debug\<close>
  lines are left out. Listeners of the signals and the handlers themselves are outside
  the model.
\<close>

datatype event =
    Emitted string
  | SocketCreated string "socket option"
  | Disconnected string
  | Sent string "socket option" bytes
  | Stats nat nat
  | Delivered handler jsval

record client =
  ident :: string
  options :: config
  channels :: chanobj
  fromServer :: bool
  tick :: jsval
  socket :: "socket option"
  trace :: "event list"
  created :: nat

text \<open>
  The concrete adapters and the encoder registry are not among the sources. An adapter
  is taken as the function that makes or adopts a socket; its \<^verbatim>\<open>send\<close> and
  \<^verbatim>\<open>disconnect\<close> are recorded in the trace. An encoder is its two functions.
\<close>

record adapter_impl =
  ad_createSocket :: "socket option \<Rightarrow> socket"

record encoder_impl =
  encode :: "jsval \<Rightarrow> bytes"
  decode :: "bytes \<Rightarrow> jsval"

text \<open>
  The environment of a client: the adapter registry (\<^verbatim>\<open>list\<close> of adapters/index.js),
  the encoder registry, the built-in defaults (defaults.js, not among the sources), and
  the names of the enumerable properties that every Channel object carries (a detail
  of Channel.js, not among the sources; the code reads \<^verbatim>\<open>packets\<close>, so that name is
  one of them). No property of a Channel is taken to be named \<^verbatim>\<open>hasOwnProperty\<close>.
\<close>

record env =
  adapters :: "string \<rightharpoonup> adapter_impl"
  encoders :: "string \<rightharpoonup> encoder_impl"
  defaults :: config
  channel_fields :: "string list"

datatype js_error = TypeError

datatype retval = This | Undefined | ASocket socket

text \<open>
  A call either returns (a value, and the client as the call left it) or throws (an
  error, and the client as it was when the error was thrown).
\<close>

datatype outcome = Returns retval client | Throws js_error client

fun state_of :: "outcome \<Rightarrow> client" where
  "state_of (Returns r c) = c"
| "state_of (Throws e c) = c"

fun returned :: "outcome \<Rightarrow> bool" where
  "returned (Returns r c) = True"
| "returned (Throws e c) = False"

fun and_then :: "outcome \<Rightarrow> (client \<Rightarrow> outcome) \<Rightarrow> outcome" where
  "and_then (Returns r c) f = f c"
| "and_then (Throws e c) f = Throws e c"

section \<open>The adapter registry (adapters/index.js)\<close>

text \<open>
  \<^verbatim>\<open>resolve\<close> returns the registered adapter, or \<^verbatim>\<open>undefined\<close> (here \<open>None\<close>) when the
  name has none. A name that the registry object only inherits (such as
  \<^verbatim>\<open>toString\<close>) yields a value with none of the adapter's methods, so calling one
  throws the same TypeError as on \<^verbatim>\<open>undefined\<close>: such names are unregistered names
  here.
\<close>

definition resolve :: "env \<Rightarrow> string \<Rightarrow> adapter_impl option" where
  "resolve e name = adapters e name"

definition register :: "string \<Rightarrow> adapter_impl \<Rightarrow> env \<Rightarrow> env" where
  "register name impl e = e\<lparr>adapters := (adapters e)(name \<mapsto> impl)\<rparr>"

text \<open>
  Modelled from the spec: encoders/index.js is not among the sources. Encoders are
  resolved by name like adapters, with \<^verbatim>\<open>undefined\<close> on a miss.
\<close>

definition resolve_encoder :: "env \<Rightarrow> string \<Rightarrow> encoder_impl option" where
  "resolve_encoder e name = encoders e name"

section \<open>Channel (modelled from the spec)\<close>

text \<open>
  Modelled from the spec: Channel.js is not among the sources. A new Channel has an
  empty queue, no handler and an idle bundler.
\<close>

definition new_Channel :: "nat \<Rightarrow> string \<Rightarrow> bundler_options \<Rightarrow> channel" where
  "new_Channel n name opts =
     \<lparr>stamp = n, cname = name, coptions = opts, packets = [], handlers = [], armed = False\<rparr>"

text \<open>Modelled from the spec: \<^verbatim>\<open>addHandler\<close> and \<^verbatim>\<open>removeHandler\<close> mutate the handler set.\<close>

definition addHandler :: "handler \<Rightarrow> channel \<Rightarrow> channel" where
  "addHandler h ch = ch\<lparr>handlers := (if h \<in> set (handlers ch) then handlers ch else handlers ch @ [h])\<rparr>"

definition removeHandler :: "handler \<Rightarrow> channel \<Rightarrow> channel" where
  "removeHandler h ch = ch\<lparr>handlers := removeAll h (handlers ch)\<rparr>"

text \<open>Modelled from the spec: \<^verbatim>\<open>startBundler\<close> arms the timer, \<^verbatim>\<open>resetBundler\<close> cancels it and keeps the queue.\<close>

definition startBundler :: "channel \<Rightarrow> channel" where
  "startBundler ch = ch\<lparr>armed := True\<rparr>"

definition resetBundler :: "channel \<Rightarrow> channel" where
  "resetBundler ch = ch\<lparr>armed := False\<rparr>"

text \<open>
  Modelled from the spec: Channel \<^verbatim>\<open>send\<close> appends to the tail of the queue and arms the
  bundler if it is not armed; Channel \<^verbatim>\<open>sendOnce\<close> replaces the whole queue with the
  one payload and arms the bundler if it is not armed.
\<close>

definition channel_send :: "jsval \<Rightarrow> channel \<Rightarrow> channel" where
  "channel_send payload ch = startBundler (ch\<lparr>packets := packets ch @ [payload]\<rparr>)"

definition channel_sendOnce :: "jsval \<Rightarrow> channel \<Rightarrow> channel" where
  "channel_sendOnce payload ch = startBundler (ch\<lparr>packets := [payload]\<rparr>)"

text \<open>
  Modelled from the spec: \<^verbatim>\<open>handleData\<close> delivers every element of the packets, in
  order, to every registered handler; a failing handler does not stop the others. The
  spec says nothing of a \<^verbatim>\<open>packets\<close> value that is no sequence; nothing is delivered
  for one here.
\<close>

fun elements :: "jsval \<Rightarrow> jsval list" where
  "elements (JArr xs) = xs"
| "elements v = []"

definition handleData :: "jsval \<Rightarrow> channel \<Rightarrow> event list" where
  "handleData pkts ch = concat (map (\<lambda>p. map (\<lambda>h. Delivered h p) (handlers ch)) (elements pkts))"

section \<open>The channels object\<close>

text \<open>Whether the object has an own property of the name \<open>k\<close>.\<close>

definition is_own :: "chanobj \<Rightarrow> string \<Rightarrow> bool" where
  "is_own obj k = (map_of (own obj) k \<noteq> None)"

text \<open>
  \<^verbatim>\<open>this.channels.hasOwnProperty(k)\<close>. The method is looked up on the dictionary itself.
  As long as no channel is named \<^verbatim>\<open>hasOwnProperty\<close>, the lookup finds the method that
  every object inherits (also past a Channel in the prototype slot), and the call
  answers whether \<open>k\<close> is an own property. Once a channel of that name exists, the
  lookup finds that Channel, which is no function: the call throws a TypeError, here
  \<open>None\<close>.
\<close>

definition hasOwnProperty :: "chanobj \<Rightarrow> string \<Rightarrow> bool option" where
  "hasOwnProperty obj k = (if is_own obj ''hasOwnProperty'' then None else Some (is_own obj k))"

text \<open>
  \<^verbatim>\<open>obj[k]\<close> read as a Channel: \<open>None\<close> when the value is not a Channel
  (\<^verbatim>\<open>undefined\<close>, or something the object inherits), so that calling a Channel method on
  it, or reading \<^verbatim>\<open>.packets.length\<close> from it, throws a TypeError.
\<close>

definition obj_get :: "chanobj \<Rightarrow> string \<Rightarrow> channel option" where
  "obj_get obj k =
     (case map_of (own obj) k of
        Some ch \<Rightarrow> Some ch
      | None \<Rightarrow> if k = ''__proto__'' then proto obj else None)"

text \<open>
  \<^verbatim>\<open>obj[k] = ch\<close>: an own property is written or created, unless the key is
  \<^verbatim>\<open>__proto__\<close> and no own property has that name, in which case the prototype is
  replaced.
\<close>

definition obj_set :: "chanobj \<Rightarrow> string \<Rightarrow> channel \<Rightarrow> chanobj" where
  "obj_set obj k ch =
     (if k = ''__proto__'' \<and> \<not> is_own obj k then obj\<lparr>proto := Some ch\<rparr>
      else obj\<lparr>own := AList.update k ch (own obj)\<rparr>)"

text \<open>\<^verbatim>\<open>obj[k].method(...)\<close>, where the method changes the Channel in place as \<open>f\<close> does.\<close>

definition obj_invoke :: "chanobj \<Rightarrow> string \<Rightarrow> (channel \<Rightarrow> channel) \<Rightarrow> chanobj option" where
  "obj_invoke obj k f =
     (case obj_get obj k of None \<Rightarrow> None | Some ch \<Rightarrow> Some (obj_set obj k (f ch)))"

text \<open>
  The keys \<^verbatim>\<open>for (let k in obj)\<close> visits after the own ones: the enumerable
  properties of the prototype that no own property shadows.
\<close>

definition inherited_keys :: "env \<Rightarrow> chanobj \<Rightarrow> string list" where
  "inherited_keys e obj =
     (case proto obj of
        None \<Rightarrow> []
      | Some ch \<Rightarrow> filter (\<lambda>k. \<not> is_own obj k) (channel_fields e))"

section \<open>Client\<close>

definition subscribe :: "jsval \<Rightarrow> handler option \<Rightarrow> bundler_options \<Rightarrow> client \<Rightarrow> outcome" where
  "subscribe name handler opts c =
     (let name' = stringify name
      in case hasOwnProperty (channels c) name' of
           None \<Rightarrow> Throws TypeError c
         | Some present \<Rightarrow>
             (let c1 = (if \<not> present
                        then c\<lparr>channels := obj_set (channels c) name'
                                               (new_Channel (created c) name' (bundler (options c) ++ opts)),
                               created := Suc (created c)\<rparr>
                        else c)
              in case handler of
                   None \<Rightarrow> Returns This c1
                 | Some h \<Rightarrow>
                     (case obj_invoke (channels c1) name' (addHandler h) of
                        None \<Rightarrow> Throws TypeError c1
                      | Some obj \<Rightarrow> Returns This (c1\<lparr>channels := obj\<rparr>))))"

definition unsubscribe :: "jsval \<Rightarrow> handler \<Rightarrow> client \<Rightarrow> outcome" where
  "unsubscribe name handler c =
     (let name' = stringify name
      in case hasOwnProperty (channels c) name' of
           None \<Rightarrow> Throws TypeError c
         | Some present \<Rightarrow>
             if \<not> present then Returns This c
             else (case obj_invoke (channels c) name' (removeHandler handler) of
                     None \<Rightarrow> Throws TypeError c
                   | Some obj \<Rightarrow> Returns This (c\<lparr>channels := obj\<rparr>)))"

definition adapter_disconnect :: "env \<Rightarrow> client \<Rightarrow> outcome" where
  "adapter_disconnect e c =
     (case resolve e (adapter (options c)) of
        None \<Rightarrow> Throws TypeError c
      | Some ad \<Rightarrow> Returns Undefined (c\<lparr>trace := trace c @ [Disconnected (adapter (options c))]\<rparr>))"

definition createSocket :: "env \<Rightarrow> socket option \<Rightarrow> client \<Rightarrow> outcome" where
  "createSocket e sock c =
     (case resolve e (adapter (options c)) of
        None \<Rightarrow> Throws TypeError c
      | Some ad \<Rightarrow>
          Returns (ASocket (ad_createSocket ad sock))
                  (c\<lparr>trace := trace c @ [SocketCreated (adapter (options c)) sock]\<rparr>))"

definition use :: "env \<Rightarrow> socket option \<Rightarrow> client \<Rightarrow> outcome" where
  "use e sock c =
     and_then (if socket c \<noteq> None then adapter_disconnect e c else Returns Undefined c)
       (\<lambda>c1. case createSocket e sock c1 of
                Throws err c2 \<Rightarrow> Throws err c2
              | Returns r c2 \<Rightarrow>
                  Returns This (c2\<lparr>socket := (case r of ASocket s \<Rightarrow> Some s | _ \<Rightarrow> None)\<rparr>))"

text \<open>
  The loops \<^verbatim>\<open>for (let channel in this.channels) this.channels[channel]...\<close> of
  \<^verbatim>\<open>handleConnect\<close> and \<^verbatim>\<open>destroy\<close>. The own properties come first, each one a
  Channel, on which the body acts in place; the bodies act on one Channel each, so the
  order among the own keys does not show. Then come the inherited keys, whose values are
  no Channels: the body throws on the first of them.
\<close>

definition for_in_channels :: "env \<Rightarrow> (channel \<Rightarrow> channel) \<Rightarrow> client \<Rightarrow> outcome" where
  "for_in_channels e body c =
     (let c1 = c\<lparr>channels := (channels c)\<lparr>own := map (\<lambda>(k, ch). (k, body ch)) (own (channels c))\<rparr>\<rparr>
      in if inherited_keys e (channels c) = [] then Returns Undefined c1
         else Throws TypeError c1)"

definition handleConnect :: "env \<Rightarrow> socket \<Rightarrow> client \<Rightarrow> outcome" where
  "handleConnect e sock c =
     for_in_channels e (\<lambda>ch. if length (packets ch) \<noteq> 0 then startBundler ch else ch)
       (c\<lparr>trace := trace c @ [Emitted ''connect'', Emitted ''connection'']\<rparr>)"

definition handleDisconnect :: "client \<Rightarrow> outcome" where
  "handleDisconnect c =
     Returns Undefined
       (c\<lparr>trace := trace c @ [Emitted ''disconnect'', Emitted ''disconnection''], socket := None\<rparr>)"

text \<open>\<^verbatim>\<open>_emit(channel, packets)\<close>.\<close>

definition emit_packets :: "env \<Rightarrow> jsval \<Rightarrow> jsval list \<Rightarrow> client \<Rightarrow> outcome" where
  "emit_packets e channel pkts c =
     (case resolve_encoder e (encoder (options c)) of
        None \<Rightarrow> Throws TypeError c
      | Some enc \<Rightarrow>
          (let payload = encode enc (JArr [channel, JArr pkts])
           in case resolve e (adapter (options c)) of
                None \<Rightarrow> Throws TypeError c
              | Some ad \<Rightarrow>
                  (let c1 = c\<lparr>trace := trace c @ [Sent (adapter (options c)) (socket c) payload]\<rparr>
                   in Returns Undefined
                        (if stats (options c)
                         then c1\<lparr>trace := trace c1 @ [Stats (length pkts) (length payload)]\<rparr>
                         else c1))))"

definition send :: "jsval \<Rightarrow> jsval \<Rightarrow> client \<Rightarrow> outcome" where
  "send name payload c =
     and_then (subscribe name None Map.empty c)
       (\<lambda>c1. case obj_invoke (channels c1) (property_key name) (channel_send payload) of
                None \<Rightarrow> Throws TypeError c1
              | Some obj \<Rightarrow> Returns This (c1\<lparr>channels := obj\<rparr>))"

definition sendOnce :: "jsval \<Rightarrow> jsval \<Rightarrow> client \<Rightarrow> outcome" where
  "sendOnce name payload c =
     and_then (subscribe name None Map.empty c)
       (\<lambda>c1. case obj_invoke (channels c1) (property_key name) (channel_sendOnce payload) of
                None \<Rightarrow> Throws TypeError c1
              | Some obj \<Rightarrow> Returns This (c1\<lparr>channels := obj\<rparr>))"

definition sendNow :: "env \<Rightarrow> jsval \<Rightarrow> jsval \<Rightarrow> client \<Rightarrow> outcome" where
  "sendNow e name payload c =
     and_then (subscribe name None Map.empty c)
       (\<lambda>c1. and_then (emit_packets e name [payload] c1) (\<lambda>c2. Returns This c2))"

definition handleRequest :: "env \<Rightarrow> bytes \<Rightarrow> client \<Rightarrow> outcome" where
  "handleRequest e evt c =
     (case resolve_encoder e (encoder (options c)) of
        None \<Rightarrow> Throws TypeError c
      | Some enc \<Rightarrow>
          (let raw = decode enc evt
           in if truthy raw \<and> truthy_length (js_length raw)
              then (case hasOwnProperty (channels c) (property_key (js_index raw 0)) of
                      None \<Rightarrow> Throws TypeError c
                    | Some present \<Rightarrow>
                        if present
                        then (case obj_get (channels c) (property_key (js_index raw 0)) of
                                None \<Rightarrow> Throws TypeError c
                              | Some ch \<Rightarrow>
                                  Returns Undefined
                                    (c\<lparr>trace := trace c @ handleData (js_index raw 1) ch\<rparr>))
                        else Returns Undefined c)
              else Returns Undefined c))"

definition destroy :: "env \<Rightarrow> client \<Rightarrow> outcome" where
  "destroy e c =
     and_then (adapter_disconnect e c)
       (\<lambda>c1. for_in_channels e resetBundler (c1\<lparr>socket := None\<rparr>))"

text \<open>\<^verbatim>\<open>x || d\<close> for an optional property \<open>x\<close>, with the truthiness test of its type.\<close>

definition or_default :: "'a option \<Rightarrow> ('a \<Rightarrow> bool) \<Rightarrow> 'a \<Rightarrow> 'a" where
  "or_default x tr d = (case x of None \<Rightarrow> d | Some v \<Rightarrow> if tr v then v else d)"

text \<open>\<^verbatim>\<open>for (let c in options.channels) this.subscribe(c, options.channels[c])\<close>.\<close>

fun populate :: "(string \<times> handler option) list \<Rightarrow> client \<Rightarrow> outcome" where
  "populate [] c = Returns Undefined c"
| "populate ((n, h) # rest) c = and_then (subscribe (JStr n) h Map.empty c) (populate rest)"

text \<open>
  The constructor; \<open>rid\<close> is the random identifier it draws. \<open>initial_client\<close> is the
  client as the constructor has it before it populates the channels. The constructor
  resolves the adapter in \<^verbatim>\<open>use\<close>, as its last step, and never looks at the encoder.
\<close>

definition initial_client :: "env \<Rightarrow> string \<Rightarrow> user_options \<Rightarrow> client" where
  "initial_client e rid opts =
     (let d = defaults e
      in \<lparr>ident = rid,
         options = \<lparr>hostname = or_default (o_hostname opts) (\<lambda>s. s \<noteq> []) (hostname d),
                    port = or_default (o_port opts) (\<lambda>n. n \<noteq> 0) (port d),
                    adapter = or_default (o_adapter opts) (\<lambda>s. s \<noteq> []) (adapter d),
                    encoder = or_default (o_encoder opts) (\<lambda>s. s \<noteq> []) (encoder d),
                    bundler = bundler d ++ or_default (o_bundler opts) (\<lambda>b. True) Map.empty,
                    stats = or_default (o_stats opts) (\<lambda>b. b) (stats d),
                    socketTimeout = or_default (o_socketTimeout opts) (\<lambda>n. n \<noteq> 0) (socketTimeout d)\<rparr>,
         channels = \<lparr>own = [], proto = None\<rparr>,
         fromServer = (o_tick opts \<noteq> JUndefined),
         tick = (if truthy (o_tick opts) then o_tick opts else JNull),
         socket = None,
         trace = [],
         created = 0\<rparr>)"

definition constructor :: "env \<Rightarrow> string \<Rightarrow> user_options \<Rightarrow> socket option \<Rightarrow> outcome" where
  "constructor e rid opts sock =
     and_then (populate (o_channels opts) (initial_client e rid opts))
       (\<lambda>c1. use e sock (c1\<lparr>socket := None\<rparr>))"

text \<open>
  Modelled from the spec: Channel.js is not among the sources. When the bundler timer of
  the Channel under key \<open>k\<close> expires, a non-empty queue is handed to the client as one
  batch (\<^verbatim>\<open>_emit\<close> with the Channel's name) and then cleared; the timer is idle
  afterwards. A timer that is not armed does not expire: the client is left as it is.
\<close>

definition bundler_expire :: "env \<Rightarrow> string \<Rightarrow> client \<Rightarrow> outcome" where
  "bundler_expire e k c =
     (case obj_get (channels c) k of
        None \<Rightarrow> Returns Undefined c
      | Some ch \<Rightarrow>
          if \<not> armed ch then Returns Undefined c
          else (let c1 = c\<lparr>channels := obj_set (channels c) k (resetBundler ch)\<rparr>
                in if packets ch = [] then Returns Undefined c1
                   else and_then (emit_packets e (JStr (cname ch)) (packets ch) c1)
                          (\<lambda>c2. Returns Undefined
                                  (c2\<lparr>channels := obj_set (channels c2) k
                                                      ((resetBundler ch)\<lparr>packets := []\<rparr>)\<rparr>))))"

section \<open>Sequences of calls\<close>

text \<open>
  The calls a client receives: from its user, from its adapter (the three handlers) and
  from the timers of its channels. A caller that catches an error goes on with the
  client as the error left it.
\<close>

datatype call =
    Subscribe jsval "handler option" bundler_options
  | Unsubscribe jsval handler
  | Use "socket option"
  | HandleConnect socket
  | HandleDisconnect
  | Send jsval jsval
  | SendOnce jsval jsval
  | SendNow jsval jsval
  | HandleRequest bytes
  | Destroy
  | Expire string

fun perform :: "env \<Rightarrow> call \<Rightarrow> client \<Rightarrow> outcome" where
  "perform e (Subscribe name h opts) c = subscribe name h opts c"
| "perform e (Unsubscribe name h) c = unsubscribe name h c"
| "perform e (Use sock) c = use e sock c"
| "perform e (HandleConnect sock) c = handleConnect e sock c"
| "perform e HandleDisconnect c = handleDisconnect c"
| "perform e (Send name payload) c = send name payload c"
| "perform e (SendOnce name payload) c = sendOnce name payload c"
| "perform e (SendNow name payload) c = sendNow e name payload c"
| "perform e (HandleRequest evt) c = handleRequest e evt c"
| "perform e Destroy c = destroy e c"
| "perform e (Expire k) c = bundler_expire e k c"

fun run :: "env \<Rightarrow> call list \<Rightarrow> client \<Rightarrow> client" where
  "run e [] c = c"
| "run e (x # xs) c = run e xs (state_of (perform e x c))"

fun is_Send :: "call \<Rightarrow> bool" where
  "is_Send (Send name payload) = True"
| "is_Send x = False"

text \<open>The pending queue of the Channel read under key \<open>k\<close> (empty when there is none).\<close>

definition pending :: "client \<Rightarrow> string \<Rightarrow> jsval list" where
  "pending c k = (case obj_get (channels c) k of None \<Rightarrow> [] | Some ch \<Rightarrow> packets ch)"

text \<open>
  The client holds a channel named \<^verbatim>\<open>hasOwnProperty\<close>, which shadows the method that
  the guards of \<^verbatim>\<open>subscribe\<close>, \<^verbatim>\<open>unsubscribe\<close> and \<^verbatim>\<open>handleRequest\<close> call.
\<close>

definition shadowed :: "client \<Rightarrow> bool" where
  "shadowed c = is_own (channels c) ''hasOwnProperty''"

section \<open>An example environment\<close>

text \<open>
  Concrete inputs for the instances below: the three adapter names of
  adapters/index.js, one encoder, and a set of defaults.
\<close>

definition example_adapter :: adapter_impl where
  "example_adapter = \<lparr>ad_createSocket = (\<lambda>s. case s of None \<Rightarrow> 1 | Some n \<Rightarrow> n)\<rparr>"

definition example_encoder :: encoder_impl where
  "example_encoder =
     \<lparr>encode = to_string,
      decode = (\<lambda>b. case b of
                       [] \<Rightarrow> JNull
                     | x # rest \<Rightarrow> JArr [JStr [x], JArr (map (\<lambda>y. JStr [y]) rest)])\<rparr>"

definition example_defaults :: config where
  "example_defaults =
     \<lparr>hostname = ''0.0.0.0'', port = 3000, adapter = ''tcp'', encoder = ''json'',
      bundler = [''every'' \<mapsto> js_num 16], stats = False, socketTimeout = 30000\<rparr>"

definition example_env :: env where
  "example_env =
     \<lparr>adapters = [''ipc'' \<mapsto> example_adapter, ''tcp'' \<mapsto> example_adapter, ''udp'' \<mapsto> example_adapter],
      encoders = [''json'' \<mapsto> example_encoder],
      defaults = example_defaults,
      channel_fields = [''name'', ''options'', ''packets'', ''handlers'']\<rparr>"

definition no_options :: user_options where
  "no_options =
     \<lparr>o_hostname = None, o_port = None, o_adapter = None, o_encoder = None, o_bundler = None,
      o_stats = None, o_socketTimeout = None, o_tick = JUndefined, o_channels = []\<rparr>"

text \<open>The client that \<^verbatim>\<open>new Client()\<close> leaves in the example environment.\<close>

definition example_client :: client where
  "example_client =
     \<lparr>ident = ''c0'', options = example_defaults, channels = \<lparr>own = [], proto = None\<rparr>,
      fromServer = False, tick = JNull, socket = Some 1,
      trace = [SocketCreated ''tcp'' None], created = 0\<rparr>"

text \<open>The same client, configured with an encoder name that is not registered.\<close>

definition unencoded_client :: client where
  "unencoded_client = example_client\<lparr>options := example_defaults\<lparr>encoder := ''nope''\<rparr>\<rparr>"

section \<open>Facts about the channels object\<close>

lemma map_of_update: "map_of (AList.update k v al) k' = (if k' = k then Some v else map_of al k')"
  by (simp add: update_conv')

lemma obj_get_set:
  "obj_get (obj_set obj k v) k' = (if k' = k then Some v else obj_get obj k')"
  by (auto simp: obj_get_def obj_set_def is_own_def map_of_update split: option.splits)

lemma is_own_set:
  "is_own (obj_set obj k v) k' = (is_own obj k' \<or> (k' = k \<and> k \<noteq> ''__proto__''))"
  by (auto simp: obj_set_def is_own_def map_of_update)

lemma is_own_get:
  "is_own obj k \<Longrightarrow> \<exists>ch. obj_get obj k = Some ch \<and> map_of (own obj) k = Some ch"
  by (auto simp: obj_get_def is_own_def)

lemma guard_unshadowed:
  "\<not> shadowed c \<Longrightarrow> hasOwnProperty (channels c) k = Some (is_own (channels c) k)"
  by (simp add: hasOwnProperty_def shadowed_def)

lemma guard_shadowed: "shadowed c \<Longrightarrow> hasOwnProperty (channels c) k = None"
  by (simp add: hasOwnProperty_def shadowed_def)

section \<open>subscribe and unsubscribe\<close>

lemma subscribe_shadowed: "shadowed c \<Longrightarrow> subscribe name h opts c = Throws TypeError c"
  by (simp add: subscribe_def guard_shadowed)

lemma subscribe_existing:
  "\<not> shadowed c \<Longrightarrow> is_own (channels c) (stringify name) \<Longrightarrow>
   subscribe name None opts c = Returns This c"
  by (simp add: subscribe_def guard_unshadowed)

lemma subscribe_new:
  "\<not> shadowed c \<Longrightarrow> \<not> is_own (channels c) (stringify name) \<Longrightarrow>
   subscribe name None opts c =
     Returns This (c\<lparr>channels := obj_set (channels c) (stringify name)
                                   (new_Channel (created c) (stringify name) (bundler (options c) ++ opts)),
                     created := Suc (created c)\<rparr>)"
  by (simp add: subscribe_def guard_unshadowed Let_def)

lemma subscribe_returns:
  "\<not> shadowed c \<Longrightarrow> \<exists>c'. subscribe name h opts c = Returns This c'"
  by (auto simp: subscribe_def guard_unshadowed Let_def obj_invoke_def obj_get_set
      split: option.splits dest: is_own_get)

lemma subscribe_frame:
  "options (state_of (subscribe name h opts c)) = options c \<and>
   socket (state_of (subscribe name h opts c)) = socket c \<and>
   trace (state_of (subscribe name h opts c)) = trace c"
  by (auto simp: subscribe_def Let_def split: option.splits)

lemma subscribe_gets:
  "\<not> shadowed c \<Longrightarrow>
   \<exists>ch. obj_get (channels (state_of (subscribe name None opts c))) (stringify name) = Some ch"
  by (auto simp: subscribe_def guard_unshadowed Let_def obj_get_set dest: is_own_get)

lemma subscribe_owns:
  "\<not> shadowed c \<Longrightarrow>
   is_own (channels (state_of (subscribe name h opts c))) k =
     (is_own (channels c) k \<or> (k = stringify name \<and> k \<noteq> ''__proto__''))"
  by (auto simp: subscribe_def guard_unshadowed Let_def obj_invoke_def obj_get_set is_own_set
      split: option.splits dest: is_own_get)

lemma unsubscribe_absent:
  "\<not> shadowed c \<Longrightarrow> \<not> is_own (channels c) (stringify name) \<Longrightarrow>
   unsubscribe name h c = Returns This c"
  by (simp add: unsubscribe_def guard_unshadowed)

lemma unsubscribe_existing:
  "\<not> shadowed c \<Longrightarrow> map_of (own (channels c)) (stringify name) = Some ch \<Longrightarrow>
   unsubscribe name h c =
     Returns This (c\<lparr>channels := obj_set (channels c) (stringify name) (removeHandler h ch)\<rparr>)"
  by (simp add: unsubscribe_def guard_unshadowed is_own_def obj_invoke_def obj_get_def)

lemma example_shadowed:
  "subscribe (JStr ''hasOwnProperty'') None Map.empty example_client =
   Returns This (example_client\<lparr>channels :=
       \<lparr>own = [(''hasOwnProperty'', new_Channel 0 ''hasOwnProperty'' [''every'' \<mapsto> js_num 16])], proto = None\<rparr>,
     created := 1\<rparr>)"
  by (simp add: subscribe_def stringify_def example_client_def hasOwnProperty_def is_own_def obj_set_def
      example_defaults_def Let_def)

text \<open>
  C9: \<^verbatim>\<open>unsubscribe(name, handler)\<close> on a client that has no channel of that name is to
  return the client and raise no error. Once the client holds a channel named
  \<^verbatim>\<open>hasOwnProperty\<close>, the guard \<^verbatim>\<open>this.channels.hasOwnProperty(name)\<close> calls that Channel
  and throws: on the example client after \<^verbatim>\<open>subscribe('hasOwnProperty')\<close>, which returns,
  \<^verbatim>\<open>unsubscribe('x', h)\<close> throws a TypeError although no channel \<^verbatim>\<open>x\<close> exists.
\<close>

theorem unsubscribe_throws_when_shadowed:
  "returned (subscribe (JStr ''hasOwnProperty'') None Map.empty example_client) \<and>
   map_of (own (channels (state_of (subscribe (JStr ''hasOwnProperty'') None Map.empty example_client)))) ''x'' = None \<and>
   unsubscribe (JStr ''x'') 7 (state_of (subscribe (JStr ''hasOwnProperty'') None Map.empty example_client)) =
     Throws TypeError (state_of (subscribe (JStr ''hasOwnProperty'') None Map.empty example_client))"
  unfolding example_shadowed
  by (simp add: unsubscribe_def stringify_def hasOwnProperty_def is_own_def)

text \<open>
  On a client that holds no channel named \<^verbatim>\<open>hasOwnProperty\<close>, and for every name whose
  string form is neither \<^verbatim>\<open>__proto__\<close> nor \<^verbatim>\<open>hasOwnProperty\<close>, the first
  \<^verbatim>\<open>subscribe\<close> leaves an own property of that name, and a further \<^verbatim>\<open>subscribe\<close>
  without a handler changes nothing: no second Channel is created.
\<close>

lemma subscribe_again_ordinary:
  assumes "\<not> shadowed c" and "stringify name \<noteq> ''__proto__''"
    and "stringify name \<noteq> ''hasOwnProperty''"
  shows "subscribe name None opts' (state_of (subscribe name h opts c)) =
         Returns This (state_of (subscribe name h opts c))"
proof -
  have "is_own (channels (state_of (subscribe name h opts c))) (stringify name)"
    using assms by (simp add: subscribe_owns)
  moreover have "\<not> shadowed (state_of (subscribe name h opts c))"
    using assms by (simp add: shadowed_def subscribe_owns)
  ultimately show ?thesis by (simp add: subscribe_existing)
qed

text \<open>
  C4: \<^verbatim>\<open>subscribe\<close> called twice with the same name creates one Channel and both calls
  act on it. The guard \<^verbatim>\<open>hasOwnProperty\<close> misses the name \<^verbatim>\<open>__proto__\<close>: the
  assignment \<^verbatim>\<open>this.channels['__proto__'] = new Channel(...)\<close> creates no own property,
  so the second call creates a second Channel. On the example client, the first call
  leaves the Channel created first (stamp 0) with the handler 7; the second call leaves
  another Channel (stamp 1) under the same name, without that handler.
\<close>

theorem subscribe_proto_twice:
  "map_option stamp (obj_get (channels (state_of
      (subscribe (JStr ''__proto__'') (Some 7) Map.empty example_client))) ''__proto__'') = Some 0 \<and>
   map_option handlers (obj_get (channels (state_of
      (subscribe (JStr ''__proto__'') (Some 7) Map.empty example_client))) ''__proto__'') = Some [7] \<and>
   map_option stamp (obj_get (channels (state_of (subscribe (JStr ''__proto__'') None Map.empty
      (state_of (subscribe (JStr ''__proto__'') (Some 7) Map.empty example_client))))) ''__proto__'') = Some 1 \<and>
   map_option handlers (obj_get (channels (state_of (subscribe (JStr ''__proto__'') None Map.empty
      (state_of (subscribe (JStr ''__proto__'') (Some 7) Map.empty example_client))))) ''__proto__'') = Some []"
  by (simp add: subscribe_def stringify_def example_client_def hasOwnProperty_def is_own_def obj_set_def
      obj_get_def obj_invoke_def new_Channel_def addHandler_def Let_def)

section \<open>Construction and resolution by name\<close>

lemma populate_owns:
  assumes "''hasOwnProperty'' \<notin> set (map fst chs)" and "\<not> shadowed c"
  shows "\<exists>c'. populate chs c = Returns Undefined c' \<and>
           options c' = options c \<and> socket c' = socket c \<and> trace c' = trace c \<and>
           \<not> shadowed c' \<and>
           (\<forall>k. is_own (channels c) k \<longrightarrow> is_own (channels c') k) \<and>
           (\<forall>n h. (n, h) \<in> set chs \<and> n \<noteq> ''__proto__'' \<longrightarrow> is_own (channels c') n)"
  using assms
proof (induction chs arbitrary: c)
  case Nil
  then show ?case by simp
next
  case (Cons p chs)
  obtain n h where p: "p = (n, h)" by (cases p)
  have n: "n \<noteq> ''hasOwnProperty''" and rest: "''hasOwnProperty'' \<notin> set (map fst chs)"
    using Cons.prems(1) p by auto
  obtain c1 where c1: "subscribe (JStr n) h Map.empty c = Returns This c1"
    using subscribe_returns [OF Cons.prems(2)] by blast
  have s: "state_of (subscribe (JStr n) h Map.empty c) = c1" using c1 by simp
  have f: "options c1 = options c" "socket c1 = socket c" "trace c1 = trace c"
    using subscribe_frame [of "JStr n" h Map.empty c] s by simp_all
  have o: "\<And>k. is_own (channels c1) k = (is_own (channels c) k \<or> (k = n \<and> k \<noteq> ''__proto__''))"
    using subscribe_owns [OF Cons.prems(2), of "JStr n" h Map.empty] s by (simp add: stringify_def)
  have u: "\<not> shadowed c1"
    using Cons.prems(2) n by (simp add: shadowed_def o)
  obtain c' where c': "populate chs c1 = Returns Undefined c'"
    "options c' = options c1" "socket c' = socket c1" "trace c' = trace c1" "\<not> shadowed c'"
    "\<forall>k. is_own (channels c1) k \<longrightarrow> is_own (channels c') k"
    "\<forall>n h. (n, h) \<in> set chs \<and> n \<noteq> ''__proto__'' \<longrightarrow> is_own (channels c') n"
    using Cons.IH [OF rest u] by blast
  show ?case
    using c1 c' f o p by auto
qed

lemma initial_unshadowed: "\<not> shadowed (initial_client e rid opts)"
  by (simp add: shadowed_def is_own_def initial_client_def Let_def)

lemma use_fresh:
  "socket c = None \<Longrightarrow>
   use e sock c =
     (case resolve e (adapter (options c)) of
        None \<Rightarrow> Throws TypeError c
      | Some ad \<Rightarrow> Returns This (c\<lparr>trace := trace c @ [SocketCreated (adapter (options c)) sock],
                                    socket := Some (ad_createSocket ad sock)\<rparr>))"
  by (simp add: use_def createSocket_def split: option.splits)

lemma emit_resolved:
  "resolve_encoder e (encoder (options c)) = Some enc \<Longrightarrow>
   resolve e (adapter (options c)) = Some ad \<Longrightarrow>
   emit_packets e ch pkts c =
     Returns Undefined
       (c\<lparr>trace := trace c @
            Sent (adapter (options c)) (socket c) (encode enc (JArr [ch, JArr pkts])) #
            (if stats (options c)
             then [Stats (length pkts) (length (encode enc (JArr [ch, JArr pkts])))] else [])\<rparr>)"
  by (simp add: emit_packets_def Let_def)

text \<open>
  C1 (amended): if the configured adapter name resolves to no registered adapter, the
  construction of the client throws a TypeError, in its last step, when the channels of
  the options have been subscribed; if it resolves, the construction succeeds whatever
  the encoder name is; a client whose encoder name resolves to no registered encoder
  throws a TypeError at each use of the encoder (\<^verbatim>\<open>_emit\<close>, \<^verbatim>\<open>handleRequest\<close>). This is
  stated for options that list no channel named \<^verbatim>\<open>hasOwnProperty\<close>.
\<close>

theorem constructor_checks_adapter_only:
  assumes "''hasOwnProperty'' \<notin> set (map fst (o_channels opts))"
  shows
  "(resolve e (or_default (o_adapter opts) (\<lambda>s. s \<noteq> []) (adapter (defaults e))) = None \<longrightarrow>
      constructor e rid opts sock =
        Throws TypeError (state_of (populate (o_channels opts) (initial_client e rid opts)))) \<and>
   (\<forall>ad. resolve e (or_default (o_adapter opts) (\<lambda>s. s \<noteq> []) (adapter (defaults e))) = Some ad \<longrightarrow>
      constructor e rid opts sock =
        Returns This ((state_of (populate (o_channels opts) (initial_client e rid opts)))
          \<lparr>trace := [SocketCreated (or_default (o_adapter opts) (\<lambda>s. s \<noteq> []) (adapter (defaults e))) sock],
           socket := Some (ad_createSocket ad sock)\<rparr>)) \<and>
   (\<forall>n h. (n, h) \<in> set (o_channels opts) \<and> n \<noteq> ''__proto__'' \<longrightarrow>
      is_own (channels (state_of (populate (o_channels opts) (initial_client e rid opts)))) n) \<and>
   encoder (options (state_of (populate (o_channels opts) (initial_client e rid opts)))) =
     or_default (o_encoder opts) (\<lambda>s. s \<noteq> []) (encoder (defaults e)) \<and>
   (resolve_encoder e (encoder (options c)) = None \<longrightarrow>
      emit_packets e ch pkts c = Throws TypeError c \<and> handleRequest e evt c = Throws TypeError c)"
proof -
  let ?c0 = "initial_client e rid opts"
  obtain c1 where c1: "populate (o_channels opts) ?c0 = Returns Undefined c1"
    "options c1 = options ?c0" "socket c1 = socket ?c0" "trace c1 = trace ?c0"
    "\<forall>n h. (n, h) \<in> set (o_channels opts) \<and> n \<noteq> ''__proto__'' \<longrightarrow> is_own (channels c1) n"
    using populate_owns [OF assms initial_unshadowed, of e rid opts] by blast
  have i: "socket ?c0 = None" "trace ?c0 = []"
    "adapter (options ?c0) = or_default (o_adapter opts) (\<lambda>s. s \<noteq> []) (adapter (defaults e))"
    "encoder (options ?c0) = or_default (o_encoder opts) (\<lambda>s. s \<noteq> []) (encoder (defaults e))"
    by (simp_all add: initial_client_def Let_def)
  have n: "c1\<lparr>socket := None\<rparr> = c1"
    using c1(3) i(1) by simp
  have con: "constructor e rid opts sock = use e sock c1"
    using c1(1) n by (simp add: constructor_def)
  have s: "state_of (populate (o_channels opts) ?c0) = c1"
    using c1(1) by simp
  have sock: "socket c1 = None" using c1(3) i(1) by simp
  show ?thesis
    unfolding s con use_fresh [OF sock]
    using c1(2,4,5) i
    by (simp add: emit_packets_def handleRequest_def)
qed

lemma example_constructor:
  "constructor example_env ''c0'' (no_options\<lparr>o_encoder := Some ''nope''\<rparr>) None =
   Returns This unencoded_client"
  by (simp add: constructor_def initial_client_def no_options_def example_env_def example_defaults_def
        or_default_def use_def createSocket_def resolve_def example_client_def example_adapter_def
        unencoded_client_def Let_def)

text \<open>
  C1, as stated, fails on the code: a client configured with an encoder name that no
  encoder is registered under is constructed without error, and the failure surfaces at
  the first use of the encoder; with an unregistered adapter name the constructor does
  throw, but only after it has subscribed the channels of its options.
\<close>

theorem constructor_accepts_unknown_encoder:
  "resolve_encoder example_env ''nope'' = None \<and>
   returned (constructor example_env ''c0'' (no_options\<lparr>o_encoder := Some ''nope''\<rparr>) None) \<and>
   \<not> returned (handleRequest example_env ''xab''
       (state_of (constructor example_env ''c0'' (no_options\<lparr>o_encoder := Some ''nope''\<rparr>) None))) \<and>
   \<not> returned (constructor example_env ''c0''
       (no_options\<lparr>o_adapter := Some ''nope'', o_channels := [(''x'', None)]\<rparr>) None) \<and>
   is_own (channels (state_of (constructor example_env ''c0''
       (no_options\<lparr>o_adapter := Some ''nope'', o_channels := [(''x'', None)]\<rparr>) None))) ''x''"
  apply (simp add: example_constructor)
  apply (simp add: resolve_encoder_def handleRequest_def example_env_def example_client_def
      example_defaults_def unencoded_client_def)
  apply (simp add: constructor_def initial_client_def no_options_def or_default_def subscribe_def
      stringify_def hasOwnProperty_def is_own_def obj_set_def use_def createSocket_def resolve_def
      new_Channel_def Let_def example_env_def example_defaults_def)
  done

theorem constructor_checks_adapter_only_witness:
  "''hasOwnProperty'' \<notin> set (map fst (o_channels (no_options\<lparr>o_adapter := Some ''nope'', o_channels := [(''x'', None)]\<rparr>))) \<and>
   resolve example_env (or_default (o_adapter (no_options\<lparr>o_adapter := Some ''nope'', o_channels := [(''x'', None)]\<rparr>))
     (\<lambda>s. s \<noteq> []) (adapter (defaults example_env))) = None \<and>
   constructor example_env ''c0'' (no_options\<lparr>o_adapter := Some ''nope'', o_channels := [(''x'', None)]\<rparr>) None =
     Throws TypeError (state_of (populate (o_channels (no_options\<lparr>o_adapter := Some ''nope'', o_channels := [(''x'', None)]\<rparr>))
        (initial_client example_env ''c0'' (no_options\<lparr>o_adapter := Some ''nope'', o_channels := [(''x'', None)]\<rparr>)))) \<and>
   is_own (channels (state_of (populate (o_channels (no_options\<lparr>o_adapter := Some ''nope'', o_channels := [(''x'', None)]\<rparr>))
        (initial_client example_env ''c0'' (no_options\<lparr>o_adapter := Some ''nope'', o_channels := [(''x'', None)]\<rparr>))))) ''x'' \<and>
   ''hasOwnProperty'' \<notin> set (map fst (o_channels (no_options\<lparr>o_encoder := Some ''nope''\<rparr>))) \<and>
   resolve example_env (or_default (o_adapter (no_options\<lparr>o_encoder := Some ''nope''\<rparr>))
     (\<lambda>s. s \<noteq> []) (adapter (defaults example_env))) = Some example_adapter \<and>
   returned (constructor example_env ''c0'' (no_options\<lparr>o_encoder := Some ''nope''\<rparr>) None) \<and>
   resolve_encoder example_env (encoder (options unencoded_client)) = None \<and>
   emit_packets example_env (JStr ''x'') [JStr ''p''] unencoded_client = Throws TypeError unencoded_client \<and>
   handleRequest example_env ''xab'' unencoded_client = Throws TypeError unencoded_client"
proof -
  let ?o1 = "no_options\<lparr>o_adapter := Some ''nope'', o_channels := [(''x'', None)]\<rparr>"
  let ?o2 = "no_options\<lparr>o_encoder := Some ''nope''\<rparr>"
  have h1: "''hasOwnProperty'' \<notin> set (map fst (o_channels ?o1))" by simp
  have h2: "''hasOwnProperty'' \<notin> set (map fst (o_channels ?o2))" by (simp add: no_options_def)
  have a: "resolve example_env (or_default (o_adapter ?o1) (\<lambda>s. s \<noteq> []) (adapter (defaults example_env))) = None"
    by (simp add: resolve_def example_env_def or_default_def)
  have b: "resolve example_env (or_default (o_adapter ?o2) (\<lambda>s. s \<noteq> []) (adapter (defaults example_env))) = Some example_adapter"
    by (simp add: resolve_def example_env_def or_default_def no_options_def example_defaults_def)
  have c: "resolve_encoder example_env (encoder (options unencoded_client)) = None"
    by (simp add: resolve_encoder_def example_env_def unencoded_client_def)
  have m: "(''x'', None) \<in> set (o_channels ?o1) \<and> ''x'' \<noteq> ''__proto__''" by simp
  note t1 = constructor_checks_adapter_only [OF h1, of example_env "''c0''" None unencoded_client
      "JStr ''x''" "[JStr ''p'']" "''xab''"]
  note t2 = constructor_checks_adapter_only [OF h2, of example_env "''c0''" None unencoded_client
      "JStr ''x''" "[JStr ''p'']" "''xab''"]
  have 1: "constructor example_env ''c0'' ?o1 None =
     Throws TypeError (state_of (populate (o_channels ?o1) (initial_client example_env ''c0'' ?o1)))"
    using t1 a by blast
  have 2: "is_own (channels (state_of (populate (o_channels ?o1) (initial_client example_env ''c0'' ?o1)))) ''x''"
    using t1 m by blast
  have "\<exists>c'. constructor example_env ''c0'' ?o2 None = Returns This c'"
    using t2 b by blast
  then have 3: "returned (constructor example_env ''c0'' ?o2 None)" by auto
  have 4: "emit_packets example_env (JStr ''x'') [JStr ''p''] unencoded_client = Throws TypeError unencoded_client"
    "handleRequest example_env ''xab'' unencoded_client = Throws TypeError unencoded_client"
    using t1 c by blast+
  show ?thesis
    using h1 h2 a b c 1 2 3 4 by blast
qed

section \<open>The three ways of sending\<close>

lemma keys_agree: "property_key name = stringify name"
  by (simp add: property_key_def stringify_def)

lemma send_shadowed: "shadowed c \<Longrightarrow> send name payload c = Throws TypeError c"
  by (simp add: send_def subscribe_shadowed)

lemma sendOnce_shadowed: "shadowed c \<Longrightarrow> sendOnce name payload c = Throws TypeError c"
  by (simp add: sendOnce_def subscribe_shadowed)

lemma sendNow_shadowed: "shadowed c \<Longrightarrow> sendNow e name payload c = Throws TypeError c"
  by (simp add: sendNow_def subscribe_shadowed)

lemma send_eq:
  assumes "\<not> shadowed c"
  shows "send name payload c =
     Returns This ((state_of (subscribe name None Map.empty c))
        \<lparr>channels := obj_set (channels (state_of (subscribe name None Map.empty c))) (stringify name)
            (channel_send payload
               (the (obj_get (channels (state_of (subscribe name None Map.empty c))) (stringify name))))\<rparr>)"
proof -
  obtain c1 where c1: "subscribe name None Map.empty c = Returns This c1"
    using subscribe_returns [OF assms] by blast
  obtain ch where "obj_get (channels c1) (stringify name) = Some ch"
    using subscribe_gets [OF assms, of name Map.empty] c1 by auto
  then show ?thesis
    by (simp add: send_def c1 obj_invoke_def keys_agree)
qed

lemma sendOnce_eq:
  assumes "\<not> shadowed c"
  shows "sendOnce name payload c =
     Returns This ((state_of (subscribe name None Map.empty c))
        \<lparr>channels := obj_set (channels (state_of (subscribe name None Map.empty c))) (stringify name)
            (channel_sendOnce payload
               (the (obj_get (channels (state_of (subscribe name None Map.empty c))) (stringify name))))\<rparr>)"
proof -
  obtain c1 where c1: "subscribe name None Map.empty c = Returns This c1"
    using subscribe_returns [OF assms] by blast
  obtain ch where "obj_get (channels c1) (stringify name) = Some ch"
    using subscribe_gets [OF assms, of name Map.empty] c1 by auto
  then show ?thesis
    by (simp add: sendOnce_def c1 obj_invoke_def keys_agree)
qed

lemma sendNow_eq:
  assumes "\<not> shadowed c"
  shows "sendNow e name payload c =
     (case emit_packets e name [payload] (state_of (subscribe name None Map.empty c)) of
        Returns r c2 \<Rightarrow> Returns This c2
      | Throws err c2 \<Rightarrow> Throws err c2)"
proof -
  obtain c1 where c1: "subscribe name None Map.empty c = Returns This c1"
    using subscribe_returns [OF assms] by blast
  show ?thesis
    by (simp add: sendNow_def c1 split: outcome.splits)
qed

lemma channels_emit: "channels (state_of (emit_packets e ch pkts c)) = channels c"
  by (auto simp: emit_packets_def Let_def split: option.splits)

lemma sendNow_channels:
  "channels (state_of (sendNow e name payload c)) = channels (state_of (subscribe name None Map.empty c))"
proof (cases "shadowed c")
  case True
  then show ?thesis by (simp add: sendNow_shadowed subscribe_shadowed)
next
  case False
  show ?thesis
    using channels_emit [of e name "[payload]" "state_of (subscribe name None Map.empty c)"]
    by (cases "emit_packets e name [payload] (state_of (subscribe name None Map.empty c))")
       (simp_all add: sendNow_eq [OF False])
qed

text \<open>
  C7 (amended): on a client that holds no channel named \<^verbatim>\<open>hasOwnProperty\<close>, for every
  channel name and payload, \<^verbatim>\<open>send\<close> and \<^verbatim>\<open>sendOnce\<close> return the client and throw
  nothing; \<^verbatim>\<open>sendNow\<close> returns the client when the configured encoder and adapter names
  both resolve, and throws a TypeError, after its implicit \<^verbatim>\<open>subscribe\<close>, when one of
  them does not.
\<close>

theorem send_family_returns:
  assumes "\<not> shadowed c"
  shows
  "(\<exists>c'. send name payload c = Returns This c') \<and>
   (\<exists>c'. sendOnce name payload c = Returns This c') \<and>
   (resolve_encoder e (encoder (options c)) \<noteq> None \<and> resolve e (adapter (options c)) \<noteq> None \<longrightarrow>
      (\<exists>c'. sendNow e name payload c = Returns This c')) \<and>
   (resolve_encoder e (encoder (options c)) = None \<or> resolve e (adapter (options c)) = None \<longrightarrow>
      sendNow e name payload c = Throws TypeError (state_of (subscribe name None Map.empty c)))"
proof (intro conjI impI)
  show "\<exists>c'. send name payload c = Returns This c'" by (simp add: send_eq [OF assms])
  show "\<exists>c'. sendOnce name payload c = Returns This c'" by (simp add: sendOnce_eq [OF assms])
  let ?c1 = "state_of (subscribe name None Map.empty c)"
  have o: "options ?c1 = options c" using subscribe_frame by simp
  {
    assume "resolve_encoder e (encoder (options c)) \<noteq> None \<and> resolve e (adapter (options c)) \<noteq> None"
    then obtain enc ad where "resolve_encoder e (encoder (options ?c1)) = Some enc"
      "resolve e (adapter (options ?c1)) = Some ad" using o by auto
    then show "\<exists>c'. sendNow e name payload c = Returns This c'"
      by (simp add: sendNow_eq [OF assms] emit_resolved)
  }
  {
    assume "resolve_encoder e (encoder (options c)) = None \<or> resolve e (adapter (options c)) = None"
    then show "sendNow e name payload c = Throws TypeError ?c1"
      using o by (auto simp: sendNow_eq [OF assms] emit_packets_def Let_def split: option.splits)
  }
qed

lemma example_unshadowed: "\<not> shadowed example_client" "\<not> shadowed unencoded_client"
  by (simp_all add: shadowed_def is_own_def example_client_def unencoded_client_def)

text \<open>
  C7, as stated, fails on the code: on a client constructed (without error) with an
  unregistered encoder name, \<^verbatim>\<open>sendNow\<close> throws.
\<close>

theorem sendNow_throws_unknown_encoder:
  "returned (constructor example_env ''c0'' (no_options\<lparr>o_encoder := Some ''nope''\<rparr>) None) \<and>
   sendNow example_env (JStr ''x'') (JStr ''p'')
      (state_of (constructor example_env ''c0'' (no_options\<lparr>o_encoder := Some ''nope''\<rparr>) None)) =
   Throws TypeError (state_of (subscribe (JStr ''x'') None Map.empty
      (state_of (constructor example_env ''c0'' (no_options\<lparr>o_encoder := Some ''nope''\<rparr>) None))))"
proof -
  have r: "resolve_encoder example_env
      (encoder (options (state_of (subscribe (JStr ''x'') None Map.empty unencoded_client)))) = None"
    by (simp add: subscribe_frame) (simp add: resolve_encoder_def example_env_def unencoded_client_def)
  have "sendNow example_env (JStr ''x'') (JStr ''p'') unencoded_client =
        Throws TypeError (state_of (subscribe (JStr ''x'') None Map.empty unencoded_client))"
    by (simp add: sendNow_eq [OF example_unshadowed(2)] emit_packets_def r)
  then show ?thesis
    by (simp add: example_constructor)
qed

theorem send_family_returns_witness:
  "\<not> shadowed example_client \<and>
   (resolve_encoder example_env (encoder (options example_client)) \<noteq> None \<and>
    resolve example_env (adapter (options example_client)) \<noteq> None) \<and>
   (\<exists>c'. send (JStr ''x'') (JStr ''p'') example_client = Returns This c') \<and>
   (\<exists>c'. sendOnce (JStr ''x'') (JStr ''p'') example_client = Returns This c') \<and>
   (\<exists>c'. sendNow example_env (JStr ''x'') (JStr ''p'') example_client = Returns This c') \<and>
   \<not> shadowed unencoded_client \<and>
   (resolve_encoder example_env (encoder (options unencoded_client)) = None \<or>
    resolve example_env (adapter (options unencoded_client)) = None) \<and>
   sendNow example_env (JStr ''x'') (JStr ''p'') unencoded_client =
     Throws TypeError (state_of (subscribe (JStr ''x'') None Map.empty unencoded_client))"
proof -
  have a: "resolve_encoder example_env (encoder (options example_client)) \<noteq> None \<and>
    resolve example_env (adapter (options example_client)) \<noteq> None"
    by (simp add: resolve_encoder_def resolve_def example_env_def example_client_def example_defaults_def)
  have b: "resolve_encoder example_env (encoder (options unencoded_client)) = None"
    by (simp add: resolve_encoder_def example_env_def unencoded_client_def)
  show ?thesis
    using a b example_unshadowed
      send_family_returns [OF example_unshadowed(1), of "JStr ''x''" "JStr ''p''" example_env]
      send_family_returns [OF example_unshadowed(2), of "JStr ''x''" "JStr ''p''" example_env]
    by blast
qed

lemma subscribe_reads:
  assumes "\<not> shadowed c" and "stringify name \<noteq> ''__proto__''"
  shows "obj_get (channels (state_of (subscribe name None opts c))) k =
     (if k = stringify name \<and> obj_get (channels c) k = None
      then Some (new_Channel (created c) k (bundler (options c) ++ opts))
      else obj_get (channels c) k)"
proof (cases "is_own (channels c) (stringify name)")
  case True
  then show ?thesis
    using assms(1) by (auto simp: subscribe_existing dest: is_own_get)
next
  case False
  then have "obj_get (channels c) (stringify name) = None"
    using assms(2) by (simp add: obj_get_def is_own_def)
  then show ?thesis
    using assms(1) False by (simp add: subscribe_new obj_get_set)
qed

lemma pending_subscribe:
  assumes "\<not> shadowed c" and "stringify name \<noteq> ''__proto__''"
  shows "pending (state_of (subscribe name None opts c)) k = pending c k"
  by (auto simp: pending_def subscribe_reads [OF assms] new_Channel_def)

text \<open>
  C5, as stated, fails on the code: on a client constructed (without error) with an
  unregistered encoder name, \<^verbatim>\<open>sendNow\<close> throws before anything is encoded, and
  nothing is handed to the adapter.
\<close>

theorem sendNow_unknown_encoder_hands_nothing:
  "returned (constructor example_env ''c0'' (no_options\<lparr>o_encoder := Some ''nope''\<rparr>) None) \<and>
   \<not> returned (sendNow example_env (JStr ''x'') (JStr ''p'')
      (state_of (constructor example_env ''c0'' (no_options\<lparr>o_encoder := Some ''nope''\<rparr>) None))) \<and>
   trace (state_of (sendNow example_env (JStr ''x'') (JStr ''p'')
      (state_of (constructor example_env ''c0'' (no_options\<lparr>o_encoder := Some ''nope''\<rparr>) None)))) =
   trace (state_of (constructor example_env ''c0'' (no_options\<lparr>o_encoder := Some ''nope''\<rparr>) None))"
proof -
  have r: "resolve_encoder example_env
      (encoder (options (state_of (subscribe (JStr ''x'') None Map.empty unencoded_client)))) = None"
    by (simp add: subscribe_frame) (simp add: resolve_encoder_def example_env_def unencoded_client_def)
  have "sendNow example_env (JStr ''x'') (JStr ''p'') unencoded_client =
        Throws TypeError (state_of (subscribe (JStr ''x'') None Map.empty unencoded_client))"
    by (simp add: sendNow_eq [OF example_unshadowed(2)] emit_packets_def r)
  then show ?thesis
    by (simp add: example_constructor subscribe_frame)
qed

text \<open>
  C5 (amended): on a client that holds no channel named \<^verbatim>\<open>hasOwnProperty\<close>, and for a
  name whose string form is not \<^verbatim>\<open>__proto__\<close>: when the configured encoder and adapter
  names resolve, \<^verbatim>\<open>sendNow(name, payload)\<close> returns the client after handing the adapter the
  encoding of the frame of the one packet \<open>[payload]\<close>; when one of them does not
  resolve, it throws and hands the adapter nothing. In both cases the pending queue under
  every name is as it was, every Channel that existed is unchanged (its bundler as well),
  and the only Channel that can be new is the one of that name, with an empty queue and
  an idle bundler.
\<close>

theorem sendNow_bypasses_queue:
  assumes "\<not> shadowed c" and "stringify name \<noteq> ''__proto__''"
  shows
  "(\<forall>enc ad. resolve_encoder e (encoder (options c)) = Some enc \<and> resolve e (adapter (options c)) = Some ad \<longrightarrow>
      (\<exists>c'. sendNow e name payload c = Returns This c' \<and>
         trace c' = trace c @
           Sent (adapter (options c)) (socket c) (encode enc (JArr [name, JArr [payload]])) #
           (if stats (options c)
            then [Stats 1 (length (encode enc (JArr [name, JArr [payload]])))] else []))) \<and>
   (resolve_encoder e (encoder (options c)) = None \<or> resolve e (adapter (options c)) = None \<longrightarrow>
      \<not> returned (sendNow e name payload c) \<and> trace (state_of (sendNow e name payload c)) = trace c) \<and>
   (\<forall>k. pending (state_of (sendNow e name payload c)) k = pending c k) \<and>
   (\<forall>k ch. obj_get (channels c) k = Some ch \<longrightarrow>
      obj_get (channels (state_of (sendNow e name payload c))) k = Some ch) \<and>
   (\<forall>k. obj_get (channels c) k = None \<longrightarrow>
      obj_get (channels (state_of (sendNow e name payload c))) k =
        (if k = stringify name then Some (new_Channel (created c) k (bundler (options c))) else None))"
proof -
  let ?c1 = "state_of (subscribe name None Map.empty c)"
  have f: "options ?c1 = options c" "socket ?c1 = socket c" "trace ?c1 = trace c"
    using subscribe_frame by simp_all
  have 1: "\<And>enc ad. resolve_encoder e (encoder (options c)) = Some enc \<Longrightarrow>
      resolve e (adapter (options c)) = Some ad \<Longrightarrow>
      \<exists>c'. sendNow e name payload c = Returns This c' \<and>
         trace c' = trace c @
           Sent (adapter (options c)) (socket c) (encode enc (JArr [name, JArr [payload]])) #
           (if stats (options c)
            then [Stats 1 (length (encode enc (JArr [name, JArr [payload]])))] else [])"
  proof -
    fix enc ad
    assume "resolve_encoder e (encoder (options c)) = Some enc" "resolve e (adapter (options c)) = Some ad"
    then have r: "resolve_encoder e (encoder (options ?c1)) = Some enc" "resolve e (adapter (options ?c1)) = Some ad"
      using f by simp_all
    show "\<exists>c'. sendNow e name payload c = Returns This c' \<and>
         trace c' = trace c @
           Sent (adapter (options c)) (socket c) (encode enc (JArr [name, JArr [payload]])) #
           (if stats (options c)
            then [Stats 1 (length (encode enc (JArr [name, JArr [payload]])))] else [])"
      using f by (simp add: sendNow_eq [OF assms(1)] emit_resolved [OF r])
  qed
  have 2: "resolve_encoder e (encoder (options c)) = None \<or> resolve e (adapter (options c)) = None \<Longrightarrow>
      \<not> returned (sendNow e name payload c) \<and> trace (state_of (sendNow e name payload c)) = trace c"
    using f by (auto simp: sendNow_eq [OF assms(1)] emit_packets_def Let_def split: option.splits)
  have 3: "\<And>k. pending (state_of (sendNow e name payload c)) k = pending c k"
    using pending_subscribe [OF assms, of Map.empty]
    by (simp add: pending_def sendNow_channels)
  have 4: "obj_get (channels (state_of (sendNow e name payload c))) k =
     (if k = stringify name \<and> obj_get (channels c) k = None
      then Some (new_Channel (created c) k (bundler (options c)))
      else obj_get (channels c) k)" for k
    unfolding sendNow_channels subscribe_reads [OF assms] by auto
  show ?thesis
    using 1 2 3 by (auto simp: 4)
qed

lemma example_queued_x:
  "send (JStr ''x'') (JStr ''a'') example_client =
   Returns This (example_client\<lparr>channels :=
       \<lparr>own = [(''x'', (new_Channel 0 ''x'' [''every'' \<mapsto> js_num 16])\<lparr>packets := [JStr ''a''], armed := True\<rparr>)],
        proto = None\<rparr>,
     created := 1\<rparr>)"
  by (simp add: send_def subscribe_def stringify_def property_key_def example_client_def hasOwnProperty_def
      is_own_def obj_set_def obj_get_def obj_invoke_def new_Channel_def channel_send_def startBundler_def
      example_defaults_def Let_def)

theorem sendNow_bypasses_queue_witness:
  "(\<not> shadowed (state_of (send (JStr ''x'') (JStr ''a'') example_client)) \<and>
    stringify (JStr ''x'') \<noteq> ''__proto__'') \<and>
   (resolve_encoder example_env (encoder (options (state_of (send (JStr ''x'') (JStr ''a'') example_client)))) =
      Some example_encoder \<and>
    resolve example_env (adapter (options (state_of (send (JStr ''x'') (JStr ''a'') example_client)))) =
      Some example_adapter) \<and>
   (\<exists>c'. sendNow example_env (JStr ''x'') (JStr ''b'') (state_of (send (JStr ''x'') (JStr ''a'') example_client)) =
        Returns This c' \<and>
      trace c' = [SocketCreated ''tcp'' None, Sent ''tcp'' (Some 1) ''x,b'']) \<and>
   pending (state_of (send (JStr ''x'') (JStr ''a'') example_client)) ''x'' = [JStr ''a''] \<and>
   pending (state_of (sendNow example_env (JStr ''x'') (JStr ''b'')
      (state_of (send (JStr ''x'') (JStr ''a'') example_client)))) ''x'' = [JStr ''a'']"
proof -
  let ?c = "state_of (send (JStr ''x'') (JStr ''a'') example_client)"
  have u: "\<not> shadowed ?c"
    unfolding example_queued_x by (simp add: shadowed_def is_own_def)
  have n: "stringify (JStr ''x'') \<noteq> ''__proto__''" by (simp add: stringify_def)
  have r: "resolve_encoder example_env (encoder (options ?c)) = Some example_encoder \<and>
    resolve example_env (adapter (options ?c)) = Some example_adapter"
    unfolding example_queued_x
    by (simp add: resolve_encoder_def resolve_def example_env_def example_client_def example_defaults_def)
  have p: "pending ?c ''x'' = [JStr ''a'']"
    unfolding example_queued_x by (simp add: pending_def obj_get_def)
  have f: "stats (options ?c) = False" "adapter (options ?c) = ''tcp''" "socket ?c = Some 1"
    "trace ?c = [SocketCreated ''tcp'' None]"
    unfolding example_queued_x by (simp_all add: example_client_def example_defaults_def)
  have d: "encode example_encoder (JArr [JStr ''x'', JArr [JStr ''b'']]) = ''x,b''"
    by (simp add: example_encoder_def)
  note t = sendNow_bypasses_queue [OF u n, of example_env "JStr ''b''"]
  have 1: "\<exists>c'. sendNow example_env (JStr ''x'') (JStr ''b'') ?c = Returns This c' \<and>
         trace c' = trace ?c @
           Sent (adapter (options ?c)) (socket ?c) (encode example_encoder (JArr [JStr ''x'', JArr [JStr ''b'']])) #
           (if stats (options ?c)
            then [Stats 1 (length (encode example_encoder (JArr [JStr ''x'', JArr [JStr ''b'']])))] else [])"
    using t r by blast
  have 2: "pending (state_of (sendNow example_env (JStr ''x'') (JStr ''b'') ?c)) ''x'' = pending ?c ''x''"
    using t by blast
  have s1: "\<exists>c'. sendNow example_env (JStr ''x'') (JStr ''b'') ?c = Returns This c' \<and>
      trace c' = [SocketCreated ''tcp'' None, Sent ''tcp'' (Some 1) ''x,b'']"
    using 1 unfolding f d by simp
  show ?thesis
    using u n r s1 p 2 by simp
qed

section \<open>Inbound frames\<close>

text \<open>
  C6, as stated, fails on the code: on a client constructed (without error) with an
  unregistered encoder name, \<^verbatim>\<open>handleRequest\<close> throws a TypeError to its caller.
\<close>

theorem handleRequest_throws_unknown_encoder:
  "returned (constructor example_env ''c0'' (no_options\<lparr>o_encoder := Some ''nope''\<rparr>) None) \<and>
   handleRequest example_env ''xab''
      (state_of (constructor example_env ''c0'' (no_options\<lparr>o_encoder := Some ''nope''\<rparr>) None)) =
   Throws TypeError (state_of (constructor example_env ''c0'' (no_options\<lparr>o_encoder := Some ''nope''\<rparr>) None))"
  apply (simp only: example_constructor)
  apply (simp add: handleRequest_def resolve_encoder_def example_env_def unencoded_client_def)
  done

text \<open>
  C6 (amended): when the configured encoder name resolves, \<^verbatim>\<open>handleRequest(bytes)\<close>
  decodes the bytes; a result that fails the test of the code for a usable frame (it is
  truthy and so is its \<^verbatim>\<open>length\<close>) is dropped: the call returns with the client
  unchanged. On a client that holds no channel named \<^verbatim>\<open>hasOwnProperty\<close>, a usable
  result is handed, by its second element, to the dispatch of the channel under its
  first element when the client has that channel, and is dropped otherwise; the call
  throws in neither case. When the encoder name does not resolve, the call throws a
  TypeError.
\<close>

theorem handleRequest_forwards_or_drops:
  "(resolve_encoder e (encoder (options c)) = None \<longrightarrow> handleRequest e evt c = Throws TypeError c) \<and>
   (\<forall>enc. resolve_encoder e (encoder (options c)) = Some enc \<longrightarrow>
      (\<not> (truthy (decode enc evt) \<and> truthy_length (js_length (decode enc evt))) \<longrightarrow>
         handleRequest e evt c = Returns Undefined c) \<and>
      (\<not> shadowed c \<and> truthy (decode enc evt) \<and> truthy_length (js_length (decode enc evt)) \<and>
       \<not> is_own (channels c) (property_key (js_index (decode enc evt) 0)) \<longrightarrow>
         handleRequest e evt c = Returns Undefined c) \<and>
      (\<not> shadowed c \<and> truthy (decode enc evt) \<and> truthy_length (js_length (decode enc evt)) \<and>
       is_own (channels c) (property_key (js_index (decode enc evt) 0)) \<longrightarrow>
         (\<exists>ch. map_of (own (channels c)) (property_key (js_index (decode enc evt) 0)) = Some ch \<and>
               handleRequest e evt c =
                 Returns Undefined (c\<lparr>trace := trace c @ handleData (js_index (decode enc evt) 1) ch\<rparr>))))"
  by (auto simp: handleRequest_def Let_def guard_unshadowed dest!: is_own_get)

lemma example_subscribed_x:
  "subscribe (JStr ''x'') (Some 7) Map.empty example_client =
   Returns This (example_client\<lparr>channels :=
       \<lparr>own = [(''x'', (new_Channel 0 ''x'' [''every'' \<mapsto> js_num 16])\<lparr>handlers := [7]\<rparr>)], proto = None\<rparr>,
     created := 1\<rparr>)"
  by (simp add: subscribe_def stringify_def example_client_def hasOwnProperty_def is_own_def obj_set_def
      obj_get_def obj_invoke_def new_Channel_def addHandler_def example_defaults_def Let_def)

theorem handleRequest_forwards_or_drops_witness:
  "resolve_encoder example_env (encoder (options unencoded_client)) = None \<and>
   handleRequest example_env ''xab'' unencoded_client = Throws TypeError unencoded_client \<and>
   resolve_encoder example_env
     (encoder (options (state_of (subscribe (JStr ''x'') (Some 7) Map.empty example_client)))) = Some example_encoder \<and>
   \<not> (truthy (decode example_encoder '''') \<and> truthy_length (js_length (decode example_encoder ''''))) \<and>
   handleRequest example_env '''' (state_of (subscribe (JStr ''x'') (Some 7) Map.empty example_client)) =
     Returns Undefined (state_of (subscribe (JStr ''x'') (Some 7) Map.empty example_client)) \<and>
   (\<not> shadowed (state_of (subscribe (JStr ''x'') (Some 7) Map.empty example_client)) \<and>
    truthy (decode example_encoder ''yab'') \<and> truthy_length (js_length (decode example_encoder ''yab'')) \<and>
    \<not> is_own (channels (state_of (subscribe (JStr ''x'') (Some 7) Map.empty example_client)))
      (property_key (js_index (decode example_encoder ''yab'') 0))) \<and>
   handleRequest example_env ''yab'' (state_of (subscribe (JStr ''x'') (Some 7) Map.empty example_client)) =
     Returns Undefined (state_of (subscribe (JStr ''x'') (Some 7) Map.empty example_client)) \<and>
   (truthy (decode example_encoder ''xab'') \<and> truthy_length (js_length (decode example_encoder ''xab'')) \<and>
    is_own (channels (state_of (subscribe (JStr ''x'') (Some 7) Map.empty example_client)))
      (property_key (js_index (decode example_encoder ''xab'') 0))) \<and>
   returned (handleRequest example_env ''xab''
      (state_of (subscribe (JStr ''x'') (Some 7) Map.empty example_client))) \<and>
   trace (state_of (handleRequest example_env ''xab''
      (state_of (subscribe (JStr ''x'') (Some 7) Map.empty example_client)))) =
     [SocketCreated ''tcp'' None, Delivered 7 (JStr ''a''), Delivered 7 (JStr ''b'')]"
proof -
  let ?c = "state_of (subscribe (JStr ''x'') (Some 7) Map.empty example_client)"
  let ?ch = "(new_Channel 0 ''x'' [''every'' \<mapsto> js_num 16])\<lparr>handlers := [7]\<rparr>"
  have n: "resolve_encoder example_env (encoder (options unencoded_client)) = None"
    by (simp add: resolve_encoder_def example_env_def unencoded_client_def)
  have a: "resolve_encoder example_env (encoder (options ?c)) = Some example_encoder"
    unfolding example_subscribed_x
    by (simp add: resolve_encoder_def example_env_def example_client_def example_defaults_def)
  have u: "\<not> shadowed ?c"
    unfolding example_subscribed_x by (simp add: shadowed_def is_own_def)
  have d: "decode example_encoder ''xab'' = JArr [JStr ''x'', JArr [JStr ''a'', JStr ''b'']]"
    "decode example_encoder ''yab'' = JArr [JStr ''y'', JArr [JStr ''a'', JStr ''b'']]"
    "decode example_encoder '''' = JNull"
    by (simp_all add: example_encoder_def)
  have k: "property_key (js_index (decode example_encoder ''xab'') 0) = ''x''"
    "property_key (js_index (decode example_encoder ''yab'') 0) = ''y''"
    "js_index (decode example_encoder ''xab'') 1 = JArr [JStr ''a'', JStr ''b'']"
    unfolding d by (simp_all add: property_key_def)
  have f0: "\<not> (truthy (decode example_encoder '''') \<and> truthy_length (js_length (decode example_encoder '''')))"
    unfolding d by simp
  have fy: "\<not> shadowed ?c \<and> truthy (decode example_encoder ''yab'') \<and>
      truthy_length (js_length (decode example_encoder ''yab'')) \<and>
      \<not> is_own (channels ?c) (property_key (js_index (decode example_encoder ''yab'') 0))"
    using u unfolding k unfolding d example_subscribed_x by (simp add: is_own_def)
  have fx: "truthy (decode example_encoder ''xab'') \<and> truthy_length (js_length (decode example_encoder ''xab'')) \<and>
      is_own (channels ?c) (property_key (js_index (decode example_encoder ''xab'') 0))"
    unfolding k unfolding d example_subscribed_x by (simp add: is_own_def)
  have m: "map_of (own (channels ?c)) ''x'' = Some ?ch" "trace ?c = [SocketCreated ''tcp'' None]"
    unfolding example_subscribed_x by (simp_all add: example_client_def)
  have 0: "handleRequest example_env ''xab'' unencoded_client = Throws TypeError unencoded_client"
    using handleRequest_forwards_or_drops [of example_env unencoded_client "''xab''"] n by blast
  have 1: "handleRequest example_env '''' ?c = Returns Undefined ?c"
    using handleRequest_forwards_or_drops [of example_env ?c "''''"] a f0 by blast
  have 2: "handleRequest example_env ''yab'' ?c = Returns Undefined ?c"
    using handleRequest_forwards_or_drops [of example_env ?c "''yab''"] a fy by blast
  have "\<exists>ch. map_of (own (channels ?c)) (property_key (js_index (decode example_encoder ''xab'') 0)) = Some ch \<and>
      handleRequest example_env ''xab'' ?c =
        Returns Undefined (?c\<lparr>trace := trace ?c @ handleData (js_index (decode example_encoder ''xab'') 1) ch\<rparr>)"
    using handleRequest_forwards_or_drops [of example_env ?c "''xab''"] a u fx by blast
  then have 3: "handleRequest example_env ''xab'' ?c =
      Returns Undefined (?c\<lparr>trace := trace ?c @ handleData (JArr [JStr ''a'', JStr ''b'']) ?ch\<rparr>)"
    unfolding k m by simp
  have 4: "returned (handleRequest example_env ''xab'' ?c)"
    "trace (state_of (handleRequest example_env ''xab'' ?c)) =
       [SocketCreated ''tcp'' None, Delivered 7 (JStr ''a''), Delivered 7 (JStr ''b'')]"
    unfolding 3 by (simp_all add: m handleData_def new_Channel_def)
  show ?thesis
    using n 0 a f0 1 fy 2 fx 4 by blast
qed

section \<open>Channels under inherited names\<close>

lemmas client_simps =
  send_def sendOnce_def subscribe_def stringify_def property_key_def hasOwnProperty_def is_own_def
  obj_set_def obj_get_def obj_invoke_def new_Channel_def channel_send_def channel_sendOnce_def
  startBundler_def resetBundler_def Let_def

lemma example_sendOnce_hasOwnProperty:
  "sendOnce (JStr ''hasOwnProperty'') (JStr ''p1'') example_client =
   Returns This (example_client\<lparr>channels :=
       \<lparr>own = [(''hasOwnProperty'',
                 (new_Channel 0 ''hasOwnProperty'' [''every'' \<mapsto> js_num 16])\<lparr>packets := [JStr ''p1''], armed := True\<rparr>)],
        proto = None\<rparr>,
     created := 1\<rparr>)"
  by (simp add: client_simps example_client_def example_defaults_def)

text \<open>
  C2: two \<^verbatim>\<open>sendOnce\<close> calls before a flush are to make the flush deliver only the
  second payload. Under the name \<^verbatim>\<open>hasOwnProperty\<close> the first call creates a channel
  that shadows the method the guard of \<^verbatim>\<open>subscribe\<close> calls: on the example client the
  first call returns, the second throws a TypeError and leaves the queue \<open>[p1]\<close>, and
  the expiry of the bundler hands over the first payload.
\<close>

theorem sendOnce_second_call_throws:
  "returned (sendOnce (JStr ''hasOwnProperty'') (JStr ''p1'') example_client) \<and>
   sendOnce (JStr ''hasOwnProperty'') (JStr ''p2'')
      (state_of (sendOnce (JStr ''hasOwnProperty'') (JStr ''p1'') example_client)) =
     Throws TypeError (state_of (sendOnce (JStr ''hasOwnProperty'') (JStr ''p1'') example_client)) \<and>
   pending (state_of (sendOnce (JStr ''hasOwnProperty'') (JStr ''p1'') example_client)) ''hasOwnProperty'' =
     [JStr ''p1''] \<and>
   trace (state_of (bundler_expire example_env ''hasOwnProperty''
      (state_of (sendOnce (JStr ''hasOwnProperty'') (JStr ''p1'') example_client)))) =
     [SocketCreated ''tcp'' None, Sent ''tcp'' (Some 1) ''hasOwnProperty,p1'']"
  unfolding example_sendOnce_hasOwnProperty
  by (simp add: client_simps pending_def bundler_expire_def emit_packets_def resolve_encoder_def
      resolve_def example_env_def example_client_def example_defaults_def example_encoder_def)

lemma example_send_proto:
  "send (JStr ''__proto__'') (JStr ''a'') example_client =
   Returns This (example_client\<lparr>channels :=
       \<lparr>own = [],
        proto = Some ((new_Channel 0 ''__proto__'' [''every'' \<mapsto> js_num 16])\<lparr>packets := [JStr ''a''], armed := True\<rparr>)\<rparr>,
     created := 1\<rparr>)"
  by (simp add: client_simps example_client_def example_defaults_def)

lemma example_stalled_proto:
  "run example_env [Send (JStr ''__proto__'') (JStr ''a''), Expire ''__proto__''] unencoded_client =
   unencoded_client\<lparr>channels :=
       \<lparr>own = [],
        proto = Some ((new_Channel 0 ''__proto__'' [''every'' \<mapsto> js_num 16])\<lparr>packets := [JStr ''a'']\<rparr>)\<rparr>,
     created := 1\<rparr>"
  by (simp add: client_simps unencoded_client_def example_client_def example_defaults_def
      bundler_expire_def emit_packets_def resolve_encoder_def example_env_def)

lemma handleConnect_throws_example:
  "returned (send (JStr ''__proto__'') (JStr ''a'') example_client) \<and>
   pending (state_of (send (JStr ''__proto__'') (JStr ''a'') example_client)) ''__proto__'' = [JStr ''a''] \<and>
   handleConnect example_env 2 (state_of (send (JStr ''__proto__'') (JStr ''a'') example_client)) =
     Throws TypeError ((state_of (send (JStr ''__proto__'') (JStr ''a'') example_client))
        \<lparr>trace := [SocketCreated ''tcp'' None, Emitted ''connect'', Emitted ''connection'']\<rparr>) \<and>
   pending (run example_env [Send (JStr ''__proto__'') (JStr ''a''), Expire ''__proto__''] unencoded_client)
      ''__proto__'' = [JStr ''a''] \<and>
   map_option armed (obj_get (channels
      (run example_env [Send (JStr ''__proto__'') (JStr ''a''), Expire ''__proto__''] unencoded_client))
      ''__proto__'') = Some False \<and>
   \<not> returned (handleConnect example_env 2
      (run example_env [Send (JStr ''__proto__'') (JStr ''a''), Expire ''__proto__''] unencoded_client)) \<and>
   map_option armed (obj_get (channels (state_of (handleConnect example_env 2
      (run example_env [Send (JStr ''__proto__'') (JStr ''a''), Expire ''__proto__''] unencoded_client))))
      ''__proto__'') = Some False"
  unfolding example_send_proto example_stalled_proto
  by (simp add: pending_def obj_get_def handleConnect_def for_in_channels_def inherited_keys_def
      is_own_def example_env_def example_client_def unencoded_client_def new_Channel_def)

lemma destroy_throws_example:
  "returned (send (JStr ''__proto__'') (JStr ''a'') example_client) \<and>
   destroy example_env (state_of (send (JStr ''__proto__'') (JStr ''a'') example_client)) =
     Throws TypeError ((state_of (send (JStr ''__proto__'') (JStr ''a'') example_client))
        \<lparr>trace := [SocketCreated ''tcp'' None, Disconnected ''tcp''], socket := None\<rparr>) \<and>
   map_option armed (obj_get (channels (state_of (destroy example_env
      (state_of (send (JStr ''__proto__'') (JStr ''a'') example_client))))) ''__proto__'') = Some True \<and>
   trace (state_of (bundler_expire example_env ''__proto__'' (state_of (destroy example_env
      (state_of (send (JStr ''__proto__'') (JStr ''a'') example_client)))))) =
     [SocketCreated ''tcp'' None, Disconnected ''tcp'', Sent ''tcp'' None ''__proto__,a'']"
  unfolding example_send_proto
  by (simp add: destroy_def adapter_disconnect_def for_in_channels_def inherited_keys_def is_own_def
      obj_get_def obj_set_def bundler_expire_def emit_packets_def resolve_encoder_def resolve_def
      example_env_def example_client_def example_defaults_def example_encoder_def new_Channel_def
      resetBundler_def Let_def)

lemma example_send_hasOwnProperty:
  "send (JStr ''hasOwnProperty'') (JStr ''p'') example_client =
   Returns This (example_client\<lparr>channels :=
       \<lparr>own = [(''hasOwnProperty'',
                 (new_Channel 0 ''hasOwnProperty'' [''every'' \<mapsto> js_num 16])\<lparr>packets := [JStr ''p''], armed := True\<rparr>)],
        proto = None\<rparr>,
     created := 1\<rparr>)"
  by (simp add: client_simps example_client_def example_defaults_def)

text \<open>
  C10: calls under names with the same string form are to share one pending queue. On
  the example client, a second \<^verbatim>\<open>send\<close> under \<^verbatim>\<open>hasOwnProperty\<close> throws a TypeError
  and the queue keeps the first payload alone; a second \<^verbatim>\<open>send\<close> under
  \<^verbatim>\<open>__proto__\<close> returns, and the queue read under that name holds the second payload
  alone, in a second Channel.
\<close>

theorem same_name_separate_queues:
  "returned (send (JStr ''hasOwnProperty'') (JStr ''p'') example_client) \<and>
   send (JStr ''hasOwnProperty'') (JStr ''q'') (state_of (send (JStr ''hasOwnProperty'') (JStr ''p'') example_client)) =
     Throws TypeError (state_of (send (JStr ''hasOwnProperty'') (JStr ''p'') example_client)) \<and>
   pending (state_of (send (JStr ''hasOwnProperty'') (JStr ''q'')
      (state_of (send (JStr ''hasOwnProperty'') (JStr ''p'') example_client)))) ''hasOwnProperty'' = [JStr ''p''] \<and>
   returned (send (JStr ''__proto__'') (JStr ''q'') (state_of (send (JStr ''__proto__'') (JStr ''p'') example_client))) \<and>
   pending (state_of (send (JStr ''__proto__'') (JStr ''q'')
      (state_of (send (JStr ''__proto__'') (JStr ''p'') example_client)))) ''__proto__'' = [JStr ''q'']"
  unfolding example_send_hasOwnProperty
  by (simp add: client_simps pending_def example_client_def example_defaults_def)

lemma example_shadowing_fields:
  "run example_env
     [Subscribe (JStr ''name'') None Map.empty, Subscribe (JStr ''options'') None Map.empty,
      Subscribe (JStr ''packets'') None Map.empty, Subscribe (JStr ''handlers'') None Map.empty,
      Send (JStr ''__proto__'') (JStr ''a'')] example_client =
   example_client\<lparr>channels :=
       \<lparr>own = [(''name'', new_Channel 0 ''name'' [''every'' \<mapsto> js_num 16]),
               (''options'', new_Channel 1 ''options'' [''every'' \<mapsto> js_num 16]),
               (''packets'', new_Channel 2 ''packets'' [''every'' \<mapsto> js_num 16]),
               (''handlers'', new_Channel 3 ''handlers'' [''every'' \<mapsto> js_num 16])],
        proto = Some ((new_Channel 4 ''__proto__'' [''every'' \<mapsto> js_num 16])\<lparr>packets := [JStr ''a''], armed := True\<rparr>)\<rparr>,
     created := 5\<rparr>"
  by (simp add: client_simps example_client_def example_defaults_def)

lemma example_shadowing_fields_stalled:
  "run example_env
     [Subscribe (JStr ''name'') None Map.empty, Subscribe (JStr ''options'') None Map.empty,
      Subscribe (JStr ''packets'') None Map.empty, Subscribe (JStr ''handlers'') None Map.empty,
      Send (JStr ''__proto__'') (JStr ''a''), Expire ''__proto__''] unencoded_client =
   unencoded_client\<lparr>channels :=
       \<lparr>own = [(''name'', new_Channel 0 ''name'' [''every'' \<mapsto> js_num 16]),
               (''options'', new_Channel 1 ''options'' [''every'' \<mapsto> js_num 16]),
               (''packets'', new_Channel 2 ''packets'' [''every'' \<mapsto> js_num 16]),
               (''handlers'', new_Channel 3 ''handlers'' [''every'' \<mapsto> js_num 16])],
        proto = Some ((new_Channel 4 ''__proto__'' [''every'' \<mapsto> js_num 16])\<lparr>packets := [JStr ''a'']\<rparr>)\<rparr>,
     created := 5\<rparr>"
  by (simp add: client_simps unencoded_client_def example_client_def example_defaults_def
      bundler_expire_def emit_packets_def resolve_encoder_def example_env_def)

lemma destroy_skips_example:
  "returned (destroy example_env (run example_env
     [Subscribe (JStr ''name'') None Map.empty, Subscribe (JStr ''options'') None Map.empty,
      Subscribe (JStr ''packets'') None Map.empty, Subscribe (JStr ''handlers'') None Map.empty,
      Send (JStr ''__proto__'') (JStr ''a'')] example_client)) \<and>
   map_option armed (obj_get (channels (state_of (destroy example_env (run example_env
     [Subscribe (JStr ''name'') None Map.empty, Subscribe (JStr ''options'') None Map.empty,
      Subscribe (JStr ''packets'') None Map.empty, Subscribe (JStr ''handlers'') None Map.empty,
      Send (JStr ''__proto__'') (JStr ''a'')] example_client)))) ''__proto__'') = Some True \<and>
   trace (state_of (bundler_expire example_env ''__proto__'' (state_of (destroy example_env (run example_env
     [Subscribe (JStr ''name'') None Map.empty, Subscribe (JStr ''options'') None Map.empty,
      Subscribe (JStr ''packets'') None Map.empty, Subscribe (JStr ''handlers'') None Map.empty,
      Send (JStr ''__proto__'') (JStr ''a'')] example_client))))) =
     [SocketCreated ''tcp'' None, Disconnected ''tcp'', Sent ''tcp'' None ''__proto__,a'']"
  unfolding example_shadowing_fields
  by (simp add: destroy_def adapter_disconnect_def for_in_channels_def inherited_keys_def is_own_def
      obj_get_def obj_set_def bundler_expire_def emit_packets_def resolve_encoder_def resolve_def
      example_env_def example_client_def example_defaults_def example_encoder_def new_Channel_def
      resetBundler_def Let_def)

lemma handleConnect_skips_example:
  "returned (handleConnect example_env 2 (run example_env
     [Subscribe (JStr ''name'') None Map.empty, Subscribe (JStr ''options'') None Map.empty,
      Subscribe (JStr ''packets'') None Map.empty, Subscribe (JStr ''handlers'') None Map.empty,
      Send (JStr ''__proto__'') (JStr ''a''), Expire ''__proto__''] unencoded_client)) \<and>
   pending (state_of (handleConnect example_env 2 (run example_env
     [Subscribe (JStr ''name'') None Map.empty, Subscribe (JStr ''options'') None Map.empty,
      Subscribe (JStr ''packets'') None Map.empty, Subscribe (JStr ''handlers'') None Map.empty,
      Send (JStr ''__proto__'') (JStr ''a''), Expire ''__proto__''] unencoded_client))) ''__proto__'' = [JStr ''a''] \<and>
   map_option armed (obj_get (channels (state_of (handleConnect example_env 2 (run example_env
     [Subscribe (JStr ''name'') None Map.empty, Subscribe (JStr ''options'') None Map.empty,
      Subscribe (JStr ''packets'') None Map.empty, Subscribe (JStr ''handlers'') None Map.empty,
      Send (JStr ''__proto__'') (JStr ''a''), Expire ''__proto__''] unencoded_client)))) ''__proto__'') = Some False"
  unfolding example_shadowing_fields_stalled
  by (simp add: pending_def obj_get_def handleConnect_def for_in_channels_def inherited_keys_def
      is_own_def example_env_def example_client_def unencoded_client_def new_Channel_def)

text \<open>
  C3: \<^verbatim>\<open>handleConnect\<close> is to restart the bundler of every channel with a non-empty
  queue. A Channel assigned under \<^verbatim>\<open>__proto__\<close> sits in the prototype slot of
  \<^verbatim>\<open>this.channels\<close>, where the loop does not visit it as a channel. On the example
  client after \<^verbatim>\<open>send('__proto__', 'a')\<close>, \<^verbatim>\<open>handleConnect\<close> throws a TypeError at
  the properties that the dictionary inherits from that Channel and leaves the channels as
  they were. Where the bundler of that Channel is idle with the queue \<open>['a']\<close> (its
  expiry failed on an unregistered encoder name), \<^verbatim>\<open>handleConnect\<close> leaves it idle,
  whether it throws or, with every inherited property shadowed by a channel of the same
  name, returns.
\<close>

theorem handleConnect_skips_prototype_channel:
  "(returned (send (JStr ''__proto__'') (JStr ''a'') example_client) \<and>
    pending (state_of (send (JStr ''__proto__'') (JStr ''a'') example_client)) ''__proto__'' = [JStr ''a''] \<and>
    handleConnect example_env 2 (state_of (send (JStr ''__proto__'') (JStr ''a'') example_client)) =
      Throws TypeError ((state_of (send (JStr ''__proto__'') (JStr ''a'') example_client))
         \<lparr>trace := [SocketCreated ''tcp'' None, Emitted ''connect'', Emitted ''connection'']\<rparr>) \<and>
    pending (run example_env [Send (JStr ''__proto__'') (JStr ''a''), Expire ''__proto__''] unencoded_client)
       ''__proto__'' = [JStr ''a''] \<and>
    map_option armed (obj_get (channels
       (run example_env [Send (JStr ''__proto__'') (JStr ''a''), Expire ''__proto__''] unencoded_client))
       ''__proto__'') = Some False \<and>
    \<not> returned (handleConnect example_env 2
       (run example_env [Send (JStr ''__proto__'') (JStr ''a''), Expire ''__proto__''] unencoded_client)) \<and>
    map_option armed (obj_get (channels (state_of (handleConnect example_env 2
       (run example_env [Send (JStr ''__proto__'') (JStr ''a''), Expire ''__proto__''] unencoded_client))))
       ''__proto__'') = Some False) \<and>
   (returned (handleConnect example_env 2 (run example_env
      [Subscribe (JStr ''name'') None Map.empty, Subscribe (JStr ''options'') None Map.empty,
       Subscribe (JStr ''packets'') None Map.empty, Subscribe (JStr ''handlers'') None Map.empty,
       Send (JStr ''__proto__'') (JStr ''a''), Expire ''__proto__''] unencoded_client)) \<and>
    pending (state_of (handleConnect example_env 2 (run example_env
      [Subscribe (JStr ''name'') None Map.empty, Subscribe (JStr ''options'') None Map.empty,
       Subscribe (JStr ''packets'') None Map.empty, Subscribe (JStr ''handlers'') None Map.empty,
       Send (JStr ''__proto__'') (JStr ''a''), Expire ''__proto__''] unencoded_client))) ''__proto__'' = [JStr ''a''] \<and>
    map_option armed (obj_get (channels (state_of (handleConnect example_env 2 (run example_env
      [Subscribe (JStr ''name'') None Map.empty, Subscribe (JStr ''options'') None Map.empty,
       Subscribe (JStr ''packets'') None Map.empty, Subscribe (JStr ''handlers'') None Map.empty,
       Send (JStr ''__proto__'') (JStr ''a''), Expire ''__proto__''] unencoded_client)))) ''__proto__'') = Some False)"
  by (rule conjI [OF handleConnect_throws_example handleConnect_skips_example])

text \<open>
  C8: after \<^verbatim>\<open>destroy()\<close> no channel's bundler is to fire. The loop of \<^verbatim>\<open>destroy\<close>
  does not visit a Channel in the prototype slot of \<^verbatim>\<open>this.channels\<close>. On the example
  client after \<^verbatim>\<open>send('__proto__', 'a')\<close>, \<^verbatim>\<open>destroy\<close> clears the socket and then
  throws a TypeError at the properties that the dictionary inherits from that Channel;
  with every inherited property shadowed by a channel of the same name, it returns. In
  both cases the bundler of that Channel is still armed, and its expiry hands the queued
  packet to the adapter.
\<close>

theorem destroy_leaves_prototype_channel_armed:
  "(returned (send (JStr ''__proto__'') (JStr ''a'') example_client) \<and>
    destroy example_env (state_of (send (JStr ''__proto__'') (JStr ''a'') example_client)) =
      Throws TypeError ((state_of (send (JStr ''__proto__'') (JStr ''a'') example_client))
         \<lparr>trace := [SocketCreated ''tcp'' None, Disconnected ''tcp''], socket := None\<rparr>) \<and>
    map_option armed (obj_get (channels (state_of (destroy example_env
       (state_of (send (JStr ''__proto__'') (JStr ''a'') example_client))))) ''__proto__'') = Some True \<and>
    trace (state_of (bundler_expire example_env ''__proto__'' (state_of (destroy example_env
       (state_of (send (JStr ''__proto__'') (JStr ''a'') example_client)))))) =
      [SocketCreated ''tcp'' None, Disconnected ''tcp'', Sent ''tcp'' None ''__proto__,a'']) \<and>
   (returned (destroy example_env (run example_env
      [Subscribe (JStr ''name'') None Map.empty, Subscribe (JStr ''options'') None Map.empty,
       Subscribe (JStr ''packets'') None Map.empty, Subscribe (JStr ''handlers'') None Map.empty,
       Send (JStr ''__proto__'') (JStr ''a'')] example_client)) \<and>
    map_option armed (obj_get (channels (state_of (destroy example_env (run example_env
      [Subscribe (JStr ''name'') None Map.empty, Subscribe (JStr ''options'') None Map.empty,
       Subscribe (JStr ''packets'') None Map.empty, Subscribe (JStr ''handlers'') None Map.empty,
       Send (JStr ''__proto__'') (JStr ''a'')] example_client)))) ''__proto__'') = Some True \<and>
    trace (state_of (bundler_expire example_env ''__proto__'' (state_of (destroy example_env (run example_env
      [Subscribe (JStr ''name'') None Map.empty, Subscribe (JStr ''options'') None Map.empty,
       Subscribe (JStr ''packets'') None Map.empty, Subscribe (JStr ''handlers'') None Map.empty,
       Send (JStr ''__proto__'') (JStr ''a'')] example_client))))) =
      [SocketCreated ''tcp'' None, Disconnected ''tcp'', Sent ''tcp'' None ''__proto__,a''])"
  by (rule conjI [OF destroy_throws_example destroy_skips_example])

section \<open>What holds for the channels held as own properties\<close>

lemma map_of_map_values:
  "map_of (map (\<lambda>(k, v). (k, f v)) xs) k = map_option f (map_of xs k)"
  by (induction xs) auto

lemma for_in_state:
  "channels (state_of (for_in_channels e body c)) =
     (channels c)\<lparr>own := map (\<lambda>(k, ch). (k, body ch)) (own (channels c))\<rparr> \<and>
   options (state_of (for_in_channels e body c)) = options c \<and>
   socket (state_of (for_in_channels e body c)) = socket c \<and>
   trace (state_of (for_in_channels e body c)) = trace c \<and>
   created (state_of (for_in_channels e body c)) = created c"
  by (simp add: for_in_channels_def Let_def)

lemma for_in_returns:
  "proto (channels c) = None \<Longrightarrow>
   for_in_channels e body c =
     Returns Undefined (c\<lparr>channels := (channels c)\<lparr>own := map (\<lambda>(k, ch). (k, body ch)) (own (channels c))\<rparr>\<rparr>)"
  by (simp add: for_in_channels_def Let_def inherited_keys_def)

text \<open>
  \<^verbatim>\<open>handleConnect\<close> arms the bundler of every channel that is an own property and has a
  non-empty queue, and returns when no Channel sits in the prototype slot.
\<close>

lemma handleConnect_restarts_own:
  "(\<forall>k ch. map_of (own (channels c)) k = Some ch \<and> packets ch \<noteq> [] \<longrightarrow>
      (\<exists>ch'. map_of (own (channels (state_of (handleConnect e sock c)))) k = Some ch' \<and>
             armed ch' \<and> packets ch' = packets ch)) \<and>
   (proto (channels c) = None \<longrightarrow> returned (handleConnect e sock c))"
  by (auto simp: handleConnect_def for_in_state for_in_returns map_of_map_values startBundler_def)

text \<open>
  \<^verbatim>\<open>destroy\<close>, when it returns, has cleared the socket, called the adapter's
  \<^verbatim>\<open>disconnect\<close> and reset the bundler of every channel that is an own property; it
  returns when the adapter resolves and no Channel sits in the prototype slot.
\<close>

lemma destroy_resets_own:
  "(\<forall>r c'. destroy e c = Returns r c' \<longrightarrow>
      socket c' = None \<and>
      trace c' = trace c @ [Disconnected (adapter (options c))] \<and>
      (\<forall>k ch. map_of (own (channels c')) k = Some ch \<longrightarrow> \<not> armed ch)) \<and>
   (resolve e (adapter (options c)) \<noteq> None \<and> proto (channels c) = None \<longrightarrow>
      returned (destroy e c) \<and>
      (\<forall>k. bundler_expire e k (state_of (destroy e c)) = Returns Undefined (state_of (destroy e c))))"
proof (intro conjI allI impI)
  fix r c'
  assume d: "destroy e c = Returns r c'"
  then obtain ad where ad: "resolve e (adapter (options c)) = Some ad"
    by (auto simp: destroy_def adapter_disconnect_def split: option.splits)
  let ?c1 = "c\<lparr>trace := trace c @ [Disconnected (adapter (options c))], socket := None\<rparr>"
  have e: "destroy e c = for_in_channels e resetBundler ?c1"
    using ad by (simp add: destroy_def adapter_disconnect_def)
  have c': "c' = state_of (for_in_channels e resetBundler ?c1)"
    using d e by simp
  show "socket c' = None" and "trace c' = trace c @ [Disconnected (adapter (options c))]"
    unfolding c' by (simp_all add: for_in_state)
  show "\<And>k ch. map_of (own (channels c')) k = Some ch \<Longrightarrow> \<not> armed ch"
    unfolding c' by (auto simp: for_in_state map_of_map_values resetBundler_def)
next
  assume a: "resolve e (adapter (options c)) \<noteq> None \<and> proto (channels c) = None"
  then obtain ad where ad: "resolve e (adapter (options c)) = Some ad" by auto
  let ?c1 = "c\<lparr>trace := trace c @ [Disconnected (adapter (options c))], socket := None\<rparr>"
  have e: "destroy e c = for_in_channels e resetBundler ?c1"
    using ad by (simp add: destroy_def adapter_disconnect_def)
  show "returned (destroy e c)"
    using a by (simp add: e for_in_returns)
  fix k
  show "bundler_expire e k (state_of (destroy e c)) = Returns Undefined (state_of (destroy e c))"
    using a
    by (auto simp: e for_in_returns bundler_expire_def obj_get_def map_of_map_values resetBundler_def
        split: option.splits)
qed

section \<open>What holds for names other than the inherited ones\<close>

lemma pending_send:
  assumes "\<not> shadowed c" and "stringify name \<noteq> ''__proto__''"
  shows "pending (state_of (send name payload c)) k =
           (if k = stringify name then pending c k @ [payload] else pending c k)"
proof -
  let ?c1 = "state_of (subscribe name None Map.empty c)"
  obtain ch where ch: "obj_get (channels ?c1) (stringify name) = Some ch"
    using subscribe_gets [OF assms(1)] by blast
  have p: "\<And>k. pending ?c1 k = pending c k"
    by (rule pending_subscribe [OF assms])
  have "packets ch = pending c (stringify name)"
    using p [of "stringify name"] ch by (simp add: pending_def)
  then show ?thesis
    using p [of k]
    by (simp add: send_eq [OF assms(1)] ch pending_def obj_get_set channel_send_def startBundler_def)
qed

lemma send_keeps_unshadowed:
  assumes "\<not> shadowed c" and "stringify name \<noteq> ''hasOwnProperty''"
  shows "\<not> shadowed (state_of (send name payload c))"
  using assms
  by (simp add: send_eq [OF assms(1)] shadowed_def is_own_set subscribe_owns)

text \<open>
  Two names with the same string form are the same name to \<^verbatim>\<open>subscribe\<close>,
  \<^verbatim>\<open>unsubscribe\<close>, \<^verbatim>\<open>send\<close> and \<^verbatim>\<open>sendOnce\<close>, and \<^verbatim>\<open>sendNow\<close> leaves the same
  channels under both. On a client that holds no channel named \<^verbatim>\<open>hasOwnProperty\<close>,
  and for a string form that is neither \<^verbatim>\<open>__proto__\<close> nor \<^verbatim>\<open>hasOwnProperty\<close>, a
  \<^verbatim>\<open>send\<close> under one name followed by a \<^verbatim>\<open>send\<close> under the other appends both
  payloads, in order, to the one pending queue.
\<close>

lemma names_coerced_ordinary:
  assumes "stringify n1 = stringify n2"
  shows "subscribe n1 h opts c = subscribe n2 h opts c \<and>
         unsubscribe n1 h' c = unsubscribe n2 h' c \<and>
         send n1 p c = send n2 p c \<and>
         sendOnce n1 p c = sendOnce n2 p c \<and>
         channels (state_of (sendNow e n1 p c)) = channels (state_of (sendNow e n2 p c)) \<and>
         (\<not> shadowed c \<and> stringify n1 \<noteq> ''__proto__'' \<and> stringify n1 \<noteq> ''hasOwnProperty'' \<longrightarrow>
            pending (state_of (send n2 q (state_of (send n1 p c)))) (stringify n1) =
              pending c (stringify n1) @ [p, q])"
proof -
  have s: "\<And>h opts. subscribe n1 h opts c = subscribe n2 h opts c"
    using assms by (simp add: subscribe_def)
  have k: "property_key n1 = property_key n2"
    using assms by (simp add: keys_agree)
  have "\<not> shadowed c \<Longrightarrow> stringify n1 \<noteq> ''__proto__'' \<Longrightarrow> stringify n1 \<noteq> ''hasOwnProperty'' \<Longrightarrow>
        pending (state_of (send n2 q (state_of (send n1 p c)))) (stringify n1) = pending c (stringify n1) @ [p, q]"
    using pending_send [of "state_of (send n1 p c)" n2 q "stringify n1"] pending_send [of c n1 p "stringify n1"]
      send_keeps_unshadowed [of c n1 p] assms
    by simp
  then show ?thesis
    using assms s k by (auto simp: unsubscribe_def send_def sendOnce_def sendNow_channels)
qed

lemma number_and_string:
  "stringify (js_num 1) = stringify (JStr ''1'') \<and>
   pending (state_of (send (JStr ''1'') (JStr ''b'') (state_of (send (js_num 1) (JStr ''a'') example_client)))) ''1'' =
     [JStr ''a'', JStr ''b'']"
proof -
  have r: "Rep_safe_int (Abs_safe_int 1) = 1"
    by (simp add: Abs_safe_int_inverse)
  have a: "stringify (js_num 1) = ''1''"
    by (simp add: stringify_def js_num_def r show_int_def show_nat.simps)
  have b: "stringify (js_num 1) = stringify (JStr ''1'')"
    unfolding a by (simp add: stringify_def)
  have c: "pending example_client ''1'' = []"
    by (simp add: pending_def obj_get_def example_client_def)
  have "pending (state_of (send (JStr ''1'') (JStr ''b'') (state_of (send (js_num 1) (JStr ''a'') example_client))))
          (stringify (js_num 1)) = pending example_client (stringify (js_num 1)) @ [JStr ''a'', JStr ''b'']"
  proof -
    have n: "\<not> shadowed example_client \<and> stringify (js_num 1) \<noteq> ''__proto__'' \<and>
        stringify (js_num 1) \<noteq> ''hasOwnProperty''"
      using example_unshadowed(1) unfolding a by simp
    show ?thesis
      using names_coerced_ordinary [OF b, of None Map.empty example_client 0 "JStr ''a''" example_env "JStr ''b''"] n
      by blast
  qed
  then show ?thesis
    using b unfolding a c by simp
qed

text \<open>
  On a client that holds no channel named \<^verbatim>\<open>hasOwnProperty\<close>, \<^verbatim>\<open>sendOnce\<close> returns
  with the one payload as the queue of the channel and its bundler armed.
\<close>

lemma sendOnce_replaces_queue:
  assumes "\<not> shadowed c"
  shows "\<exists>c1 ch. sendOnce name p c = Returns This c1 \<and>
           obj_get (channels c1) (property_key name) = Some ch \<and> packets ch = [p] \<and> armed ch"
  by (simp add: sendOnce_eq [OF assms] keys_agree obj_get_set channel_sendOnce_def startBundler_def)

section \<open>The pending queue under calls other than send\<close>

lemma pending_set:
  "pending (c\<lparr>channels := obj_set (channels c) k' v\<rparr>) k = (if k = k' then packets v else pending c k)"
  by (simp add: pending_def obj_get_set)

lemma pending_channels_cong: "channels c' = channels c \<Longrightarrow> pending c' k = pending c k"
  by (simp add: pending_def)

lemma obj_get_map_own:
  "obj_get (obj\<lparr>own := map (\<lambda>(k, ch). (k, f ch)) (own obj)\<rparr>) k =
     (case map_of (own obj) k of
        Some ch \<Rightarrow> Some (f ch)
      | None \<Rightarrow> if k = ''__proto__'' then proto obj else None)"
  by (simp add: obj_get_def map_of_map_values split: option.splits)

lemma pending_for_in:
  "(\<And>ch. packets (body ch) = packets ch) \<Longrightarrow>
   pending (state_of (for_in_channels e body c)) k = pending c k"
proof -
  assume b: "\<And>ch. packets (body ch) = packets ch"
  have "pending (state_of (for_in_channels e body c)) k =
        (case obj_get ((channels c)\<lparr>own := map (\<lambda>(k, ch). (k, body ch)) (own (channels c))\<rparr>) k of
           None \<Rightarrow> [] | Some ch \<Rightarrow> packets ch)"
    by (simp add: pending_def for_in_state)
  also have "\<dots> = pending c k"
    unfolding obj_get_map_own
    by (cases "map_of (own (channels c)) k") (simp_all add: pending_def obj_get_def b)
  finally show ?thesis .
qed

lemma pending_subscribe_le:
  "length (pending (state_of (subscribe name h opts c)) k) \<le> length (pending c k)"
  by (auto simp: subscribe_def Let_def obj_invoke_def obj_get_set pending_set new_Channel_def addHandler_def
      pending_def split: option.splits)

lemma pending_unsubscribe:
  "pending (state_of (unsubscribe name h c)) k = pending c k"
  by (auto simp: unsubscribe_def Let_def obj_invoke_def obj_get_set pending_def removeHandler_def
      split: option.splits)

lemma channels_use: "channels (state_of (use e sock c)) = channels c"
  by (auto simp: use_def adapter_disconnect_def createSocket_def split: option.splits)

lemma channels_handleRequest: "channels (state_of (handleRequest e evt c)) = channels c"
  by (auto simp: handleRequest_def Let_def split: option.splits)

lemma pending_handleConnect: "pending (state_of (handleConnect e sock c)) k = pending c k"
proof -
  have "pending (state_of (handleConnect e sock c)) k =
        pending (c\<lparr>trace := trace c @ [Emitted ''connect'', Emitted ''connection'']\<rparr>) k"
    unfolding handleConnect_def by (rule pending_for_in) (simp add: startBundler_def)
  then show ?thesis by (simp add: pending_def)
qed

lemma pending_destroy: "pending (state_of (destroy e c)) k = pending c k"
proof (cases "resolve e (adapter (options c))")
  case None
  then show ?thesis by (simp add: destroy_def adapter_disconnect_def)
next
  case (Some ad)
  have "pending (state_of (destroy e c)) k =
        pending (c\<lparr>trace := trace c @ [Disconnected (adapter (options c))], socket := None\<rparr>) k"
    using Some unfolding destroy_def adapter_disconnect_def
    by (simp add: pending_for_in resetBundler_def)
  then show ?thesis by (simp add: pending_def)
qed

lemma pending_sendOnce_le:
  "length (pending (state_of (sendOnce name payload c)) k) \<le> max 1 (length (pending c k))"
proof (cases "shadowed c")
  case True
  then show ?thesis by (simp add: sendOnce_shadowed)
next
  case False
  show ?thesis
    using pending_subscribe_le [of name None Map.empty c k]
    by (auto simp: sendOnce_eq [OF False] pending_set channel_sendOnce_def startBundler_def)
qed

lemma pending_expire_le:
  "length (pending (state_of (bundler_expire e k' c)) k) \<le> length (pending c k)"
proof (cases "obj_get (channels c) k'")
  case None
  then show ?thesis by (simp add: bundler_expire_def)
next
  case (Some ch)
  let ?c1 = "c\<lparr>channels := obj_set (channels c) k' (resetBundler ch)\<rparr>"
  have p1: "pending ?c1 k = pending c k"
    using Some by (simp add: pending_set resetBundler_def) (simp add: pending_def)
  show ?thesis
  proof (cases "armed ch \<and> packets ch \<noteq> []")
    case False
    then show ?thesis using Some p1 by (auto simp: bundler_expire_def Let_def)
  next
    case True
    show ?thesis
    proof (cases "emit_packets e (JStr (cname ch)) (packets ch) ?c1")
      case (Returns r c2)
      have "channels c2 = channels ?c1"
        using channels_emit [of e "JStr (cname ch)" "packets ch" ?c1] Returns by simp
      then show ?thesis
        using Some True Returns p1
        by (simp add: bundler_expire_def Let_def pending_def obj_get_set)
    next
      case (Throws err c2)
      have "channels c2 = channels ?c1"
        using channels_emit [of e "JStr (cname ch)" "packets ch" ?c1] Throws by simp
      then have "pending c2 k = pending ?c1 k" by (rule pending_channels_cong)
      then show ?thesis
        using Some True Throws p1 by (simp add: bundler_expire_def Let_def)
    qed
  qed
qed

lemma perform_no_growth:
  "\<not> is_Send x \<Longrightarrow> length (pending (state_of (perform e x c)) k) \<le> max 1 (length (pending c k))"
proof (cases x)
  case (Subscribe name h opts)
  then show ?thesis using pending_subscribe_le [of name h opts c k] by simp
next
  case (SendOnce name payload)
  then show ?thesis using pending_sendOnce_le [of name payload c k] by simp
next
  case (SendNow name payload)
  have "pending (state_of (sendNow e name payload c)) k = pending (state_of (subscribe name None Map.empty c)) k"
    by (rule pending_channels_cong) (rule sendNow_channels)
  then show ?thesis
    using SendNow pending_subscribe_le [of name None Map.empty c k] by simp
next
  case (Expire k')
  then show ?thesis using pending_expire_le [of e k' c k] by simp
next
  case HandleDisconnect
  then show ?thesis by (simp add: handleDisconnect_def pending_def)
qed (simp_all add: pending_unsubscribe pending_handleConnect pending_destroy
      pending_channels_cong [OF channels_use] pending_channels_cong [OF channels_handleRequest])

text \<open>
  No sequence of calls without a \<^verbatim>\<open>send\<close> makes a pending queue of length at most 1
  longer than 1.
\<close>

lemma run_no_growth:
  "\<forall>x \<in> set xs. \<not> is_Send x \<Longrightarrow> length (pending c k) \<le> 1 \<Longrightarrow> length (pending (run e xs c) k) \<le> 1"
proof (induction xs arbitrary: c)
  case Nil
  then show ?case by simp
next
  case (Cons x xs)
  have "length (pending (state_of (perform e x c)) k) \<le> 1"
    using perform_no_growth [of x e c k] Cons.prems by simp
  then show ?case using Cons by simp
qed

end
